theory Spec2Isabelle
  imports Complex_Main
begin

section \<open>TubePropertiesComp: data model\<close>

text \<open>
  The component lives in
  \<^verbatim>\<open>openaerostruct_v2/structures/components/tube_properties_comp.py\<close>.
  Its metadata entry \<^verbatim>\<open>lifting_surfaces\<close> is a list of pairs (name, data), where data
  is a dictionary. The framework's input, output and partial-derivative vectors are
  dictionaries from names to one-dimensional numpy arrays. A float64 entry is modelled
  as a \<^typ>\<open>real\<close>: the theorems below are about the formulas in exact arithmetic,
  rounding and overflow are not modelled. Python's unbounded integers are \<^typ>\<open>int\<close>.
\<close>

type_synonym array = "real list"

type_synonym lifting_surface = "string \<times> (string \<rightharpoonup> int)"

type_synonym vector = "string \<rightharpoonup> array"

type_synonym jacobian = "(string \<times> string) \<rightharpoonup> array"

text \<open>
  A missing dictionary key raises \<^verbatim>\<open>KeyError\<close>; two arrays whose shapes cannot be
  broadcast together raise \<^verbatim>\<open>ValueError\<close>.
\<close>

datatype error = KeyError string | ValueError

definition bind_err :: "error + 'a \<Rightarrow> ('a \<Rightarrow> error + 'b) \<Rightarrow> error + 'b" where
  "bind_err m f = (case m of Inl e \<Rightarrow> Inl e | Inr x \<Rightarrow> f x)"

text \<open>\<^verbatim>\<open>m[k]\<close> on a dictionary with string keys.\<close>

definition getitem :: "(string \<rightharpoonup> 'v) \<Rightarrow> string \<Rightarrow> error + 'v" where
  "getitem m k = (case m k of None \<Rightarrow> Inl (KeyError k) | Some v \<Rightarrow> Inr v)"

text \<open>The two format strings \<^verbatim>\<open>'{}_tube_{}'\<close> and \<^verbatim>\<open>'{}_element_{}'\<close>.\<close>

definition tube_name :: "string \<Rightarrow> string \<Rightarrow> string" where
  "tube_name lifting_surface_name x = lifting_surface_name @ ''_tube_'' @ x"

definition element_name :: "string \<Rightarrow> string \<Rightarrow> string" where
  "element_name lifting_surface_name x = lifting_surface_name @ ''_element_'' @ x"

subsection \<open>The numpy operations the component uses\<close>

text \<open>
  \<^verbatim>\<open>a - b\<close> on one-dimensional arrays: elementwise when the lengths agree, an array of
  length one is stretched to the other's length, anything else is a \<^verbatim>\<open>ValueError\<close>.
\<close>

definition np_sub :: "array \<Rightarrow> array \<Rightarrow> error + array" where
  "np_sub a b =
     (if length a = length b then Inr (map2 (-) a b)
      else if length a = 1 then Inr (map (\<lambda>y. hd a - y) b)
      else if length b = 1 then Inr (map (\<lambda>x. x - hd b) a)
      else Inl ValueError)"

text \<open>\<^verbatim>\<open>a ** n\<close>, \<^verbatim>\<open>c * a\<close>, \<^verbatim>\<open>a * c\<close> and \<^verbatim>\<open>a / c\<close> for a scalar \<^verbatim>\<open>c\<close>.\<close>

definition np_pow :: "array \<Rightarrow> nat \<Rightarrow> array" where
  "np_pow a n = map (\<lambda>x. x ^ n) a"

definition np_lmul :: "real \<Rightarrow> array \<Rightarrow> array" where
  "np_lmul c a = map (\<lambda>x. c * x) a"

definition np_rmul :: "array \<Rightarrow> real \<Rightarrow> array" where
  "np_rmul a c = map (\<lambda>x. x * c) a"

definition np_div :: "array \<Rightarrow> real \<Rightarrow> array" where
  "np_div a c = map (\<lambda>x. x / c) a"

text \<open>\<^verbatim>\<open>np.arange(n)\<close> for an integer \<^verbatim>\<open>n\<close>: \<^verbatim>\<open>0, ..., n - 1\<close>, empty when \<^verbatim>\<open>n <= 0\<close>.\<close>

definition np_arange :: "int \<Rightarrow> int list" where
  "np_arange n = [0..n - 1]"

section \<open>setup\<close>

text \<open>
  The framework calls \<^verbatim>\<open>add_input\<close>, \<^verbatim>\<open>add_output\<close> and \<^verbatim>\<open>declare_partials\<close> are
  recorded in the order \<^verbatim>\<open>setup\<close> makes them, each with the arguments it passes.
  \<^verbatim>\<open>add_input\<close> and \<^verbatim>\<open>add_output\<close> allocate an array of the given shape, which
  numpy refuses with a \<^verbatim>\<open>ValueError\<close> when the shape is negative, and they raise a
  \<^verbatim>\<open>ValueError\<close> for a variable name that the component has declared already.
\<close>

record component =
  inputs_decl :: "(string \<times> int) list"
  outputs_decl :: "(string \<times> int) list"
  partials_decl :: "(string \<times> string \<times> int list \<times> int list) list"

definition new_component :: component where
  "new_component = \<lparr>inputs_decl = [], outputs_decl = [], partials_decl = []\<rparr>"

definition declared_names :: "component \<Rightarrow> string list" where
  "declared_names c = map fst (inputs_decl c) @ map fst (outputs_decl c)"

definition add_input :: "string \<Rightarrow> int \<Rightarrow> component \<Rightarrow> error + component" where
  "add_input name shape c =
     (if shape < 0 then Inl ValueError
      else if name \<in> set (declared_names c) then Inl ValueError
      else Inr (c\<lparr>inputs_decl := inputs_decl c @ [(name, shape)]\<rparr>))"

definition add_output :: "string \<Rightarrow> int \<Rightarrow> component \<Rightarrow> error + component" where
  "add_output name shape c =
     (if shape < 0 then Inl ValueError
      else if name \<in> set (declared_names c) then Inl ValueError
      else Inr (c\<lparr>outputs_decl := outputs_decl c @ [(name, shape)]\<rparr>))"

definition declare_partials ::
  "string \<Rightarrow> string \<Rightarrow> int list \<Rightarrow> int list \<Rightarrow> component \<Rightarrow> component" where
  "declare_partials of_name wrt rows cols c =
     c\<lparr>partials_decl := partials_decl c @ [(of_name, wrt, rows, cols)]\<rparr>"

text \<open>A \<^verbatim>\<open>for\<close> loop over a list whose body may raise: the first error ends it.\<close>

fun for_each :: "('a \<Rightarrow> 's \<Rightarrow> error + 's) \<Rightarrow> 'a list \<Rightarrow> 's \<Rightarrow> error + 's" where
  "for_each body [] s = Inr s"
| "for_each body (x # xs) s = bind_err (body x s) (for_each body xs)"

definition setup_surface :: "lifting_surface \<Rightarrow> component \<Rightarrow> error + component" where
  "setup_surface surface c =
     (case surface of (lifting_surface_name, lifting_surface_data) \<Rightarrow>
      bind_err (getitem lifting_surface_data ''num_points_z_half'') (\<lambda>half.
        let num_points_z = 2 * half - 1 in
      bind_err (for_each (\<lambda>in_name'.
                  add_input (tube_name lifting_surface_name in_name') (num_points_z - 1))
                  [''radius'', ''thickness''] c) (\<lambda>c.
      bind_err (for_each (\<lambda>out_name'.
                  add_output (element_name lifting_surface_name out_name') (num_points_z - 1))
                  [''A'', ''Iy'', ''Iz'', ''J''] c) (\<lambda>c.
        let arange = np_arange (num_points_z - 1) in
      for_each (\<lambda>out_name'.
                  for_each (\<lambda>in_name' c.
                    Inr (declare_partials (element_name lifting_surface_name out_name')
                      (tube_name lifting_surface_name in_name') arange arange c))
                    [''radius'', ''thickness''])
                  [''A'', ''Iy'', ''Iz'', ''J''] c))))"

fun setup_loop :: "lifting_surface list \<Rightarrow> component \<Rightarrow> error + component" where
  "setup_loop [] c = Inr c"
| "setup_loop (surface # rest) c = bind_err (setup_surface surface c) (setup_loop rest)"

text \<open>\<^verbatim>\<open>setup\<close> itself, on a component with nothing declared yet.\<close>

definition setup_comp :: "lifting_surface list \<Rightarrow> error + component" where
  "setup_comp lifting_surfaces = setup_loop lifting_surfaces new_component"

section \<open>compute\<close>

definition compute_surface :: "lifting_surface \<Rightarrow> vector \<Rightarrow> vector \<Rightarrow> error + vector" where
  "compute_surface surface inputs outputs =
     (case surface of (lifting_surface_name, lifting_surface_data) \<Rightarrow>
      let radius_name = tube_name lifting_surface_name ''radius'';
          thickness_name = tube_name lifting_surface_name ''thickness'';
          A_name = element_name lifting_surface_name ''A'';
          Iy_name = element_name lifting_surface_name ''Iy'';
          Iz_name = element_name lifting_surface_name ''Iz'';
          J_name = element_name lifting_surface_name ''J''
      in
      bind_err (getitem inputs radius_name) (\<lambda>radius.
      bind_err (getitem inputs thickness_name) (\<lambda>thickness.
      bind_err (np_sub radius thickness) (\<lambda>r1.
      bind_err (getitem inputs radius_name) (\<lambda>r2.
      bind_err (np_sub (np_pow r2 2) (np_pow r1 2)) (\<lambda>d.
        let outputs = outputs(A_name \<mapsto> np_lmul pi d) in
      bind_err (np_sub (np_pow r2 4) (np_pow r1 4)) (\<lambda>d.
        let outputs = outputs(Iy_name \<mapsto> np_div (np_lmul pi d) 4) in
      bind_err (np_sub (np_pow r2 4) (np_pow r1 4)) (\<lambda>d.
        let outputs = outputs(Iz_name \<mapsto> np_div (np_lmul pi d) 4) in
      bind_err (np_sub (np_pow r2 4) (np_pow r1 4)) (\<lambda>d.
        let outputs = outputs(J_name \<mapsto> np_div (np_lmul pi d) 2) in
      Inr outputs)))))))))"

fun compute_loop :: "lifting_surface list \<Rightarrow> vector \<Rightarrow> vector \<Rightarrow> error + vector" where
  "compute_loop [] inputs outputs = Inr outputs"
| "compute_loop (surface # rest) inputs outputs =
     bind_err (compute_surface surface inputs outputs) (compute_loop rest inputs)"

definition compute :: "lifting_surface list \<Rightarrow> vector \<Rightarrow> vector \<Rightarrow> error + vector" where
  "compute lifting_surfaces inputs outputs = compute_loop lifting_surfaces inputs outputs"

section \<open>\<^verbatim>\<open>compute_partials\<close>\<close>

definition dr1_dr :: real where "dr1_dr = 1"

definition dr2_dr :: real where "dr2_dr = 1"

definition dr1_dt :: real where "dr1_dt = - 1"

definition dr2_dt :: real where "dr2_dt = 0"

definition compute_partials_surface ::
  "lifting_surface \<Rightarrow> vector \<Rightarrow> jacobian \<Rightarrow> error + jacobian" where
  "compute_partials_surface surface inputs partials =
     (case surface of (lifting_surface_name, lifting_surface_data) \<Rightarrow>
      let radius_name = tube_name lifting_surface_name ''radius'';
          thickness_name = tube_name lifting_surface_name ''thickness'';
          A_name = element_name lifting_surface_name ''A'';
          Iy_name = element_name lifting_surface_name ''Iy'';
          Iz_name = element_name lifting_surface_name ''Iz'';
          J_name = element_name lifting_surface_name ''J''
      in
      bind_err (getitem inputs radius_name) (\<lambda>radius.
      bind_err (getitem inputs thickness_name) (\<lambda>thickness.
      bind_err (np_sub radius thickness) (\<lambda>r1.
      bind_err (getitem inputs radius_name) (\<lambda>r2.
      bind_err (np_sub (np_rmul r2 dr2_dr) (np_rmul r1 dr1_dr)) (\<lambda>d.
        let partials = partials((A_name, radius_name) \<mapsto> np_lmul (2 * pi) d) in
      bind_err (np_sub (np_rmul r2 dr2_dt) (np_rmul r1 dr1_dt)) (\<lambda>d.
        let partials = partials((A_name, thickness_name) \<mapsto> np_lmul (2 * pi) d) in
      bind_err (np_sub (np_rmul (np_pow r2 3) dr2_dr) (np_rmul (np_pow r1 3) dr1_dr)) (\<lambda>d.
        let partials = partials((Iy_name, radius_name) \<mapsto> np_lmul pi d) in
      bind_err (np_sub (np_rmul (np_pow r2 3) dr2_dt) (np_rmul (np_pow r1 3) dr1_dt)) (\<lambda>d.
        let partials = partials((Iy_name, thickness_name) \<mapsto> np_lmul pi d) in
      bind_err (np_sub (np_rmul (np_pow r2 3) dr2_dr) (np_rmul (np_pow r1 3) dr1_dr)) (\<lambda>d.
        let partials = partials((Iz_name, radius_name) \<mapsto> np_lmul pi d) in
      bind_err (np_sub (np_rmul (np_pow r2 3) dr2_dt) (np_rmul (np_pow r1 3) dr1_dt)) (\<lambda>d.
        let partials = partials((Iz_name, thickness_name) \<mapsto> np_lmul pi d) in
      bind_err (np_sub (np_rmul (np_pow r2 3) dr2_dr) (np_rmul (np_pow r1 3) dr1_dr)) (\<lambda>d.
        let partials = partials((J_name, radius_name) \<mapsto> np_lmul (2 * pi) d) in
      bind_err (np_sub (np_rmul (np_pow r2 3) dr2_dt) (np_rmul (np_pow r1 3) dr1_dt)) (\<lambda>d.
        let partials = partials((J_name, thickness_name) \<mapsto> np_lmul (2 * pi) d) in
      Inr partials)))))))))))))"

fun compute_partials_loop ::
  "lifting_surface list \<Rightarrow> vector \<Rightarrow> jacobian \<Rightarrow> error + jacobian" where
  "compute_partials_loop [] inputs partials = Inr partials"
| "compute_partials_loop (surface # rest) inputs partials =
     bind_err (compute_partials_surface surface inputs partials)
       (compute_partials_loop rest inputs)"

definition compute_partials ::
  "lifting_surface list \<Rightarrow> vector \<Rightarrow> jacobian \<Rightarrow> error + jacobian" where
  "compute_partials lifting_surfaces inputs partials =
     compute_partials_loop lifting_surfaces inputs partials"

section \<open>\<^verbatim>\<open>compute\<close> in binary64 arithmetic\<close>



















section \<open>Auxiliary definitions for the properties\<close>

text \<open>
  The inputs hold a radius and a thickness array of one length for the surface named
  \<open>s\<close>: what the shapes declared by \<^verbatim>\<open>setup\<close> give.
\<close>

definition same_shape :: "vector \<Rightarrow> string \<Rightarrow> bool" where
  "same_shape inputs s =
     (case (inputs (tube_name s ''radius''), inputs (tube_name s ''thickness'')) of
        (Some rs, Some ts) \<Rightarrow> length rs = length ts
      | _ \<Rightarrow> False)"

text \<open>
  The outputs of the surface named \<open>s\<close> hold the four property arrays of its current
  inputs; the loop of \<^verbatim>\<open>compute\<close> establishes this for each surface it visits
  and keeps it for the surfaces visited before.
\<close>

definition surface_outputs :: "vector \<Rightarrow> string \<Rightarrow> vector \<Rightarrow> bool" where
  "surface_outputs inputs s outs =
     (case (inputs (tube_name s ''radius''), inputs (tube_name s ''thickness'')) of
        (Some rs, Some ts) \<Rightarrow>
          outs (element_name s ''A'') = Some (map2 (\<lambda>r t. pi * (r ^ 2 - (r - t) ^ 2)) rs ts) \<and>
          outs (element_name s ''Iy'') = Some (map2 (\<lambda>r t. pi * (r ^ 4 - (r - t) ^ 4) / 4) rs ts) \<and>
          outs (element_name s ''Iz'') = Some (map2 (\<lambda>r t. pi * (r ^ 4 - (r - t) ^ 4) / 4) rs ts) \<and>
          outs (element_name s ''J'') = Some (map2 (\<lambda>r t. pi * (r ^ 4 - (r - t) ^ 4) / 2) rs ts)
      | _ \<Rightarrow> False)"

text \<open>
  The same for the 8 partials of the surface named \<open>s\<close>, written with the four
  constants as \<^verbatim>\<open>compute_partials\<close> has them.
\<close>

definition surface_partials :: "vector \<Rightarrow> string \<Rightarrow> jacobian \<Rightarrow> bool" where
  "surface_partials inputs s partials =
     (case (inputs (tube_name s ''radius''), inputs (tube_name s ''thickness'')) of
        (Some rs, Some ts) \<Rightarrow>
          partials (element_name s ''A'', tube_name s ''radius'') =
            Some (map2 (\<lambda>r t. 2 * pi * (r * dr2_dr - (r - t) * dr1_dr)) rs ts) \<and>
          partials (element_name s ''A'', tube_name s ''thickness'') =
            Some (map2 (\<lambda>r t. 2 * pi * (r * dr2_dt - (r - t) * dr1_dt)) rs ts) \<and>
          partials (element_name s ''Iy'', tube_name s ''radius'') =
            Some (map2 (\<lambda>r t. pi * (r ^ 3 * dr2_dr - (r - t) ^ 3 * dr1_dr)) rs ts) \<and>
          partials (element_name s ''Iy'', tube_name s ''thickness'') =
            Some (map2 (\<lambda>r t. pi * (r ^ 3 * dr2_dt - (r - t) ^ 3 * dr1_dt)) rs ts) \<and>
          partials (element_name s ''Iz'', tube_name s ''radius'') =
            Some (map2 (\<lambda>r t. pi * (r ^ 3 * dr2_dr - (r - t) ^ 3 * dr1_dr)) rs ts) \<and>
          partials (element_name s ''Iz'', tube_name s ''thickness'') =
            Some (map2 (\<lambda>r t. pi * (r ^ 3 * dr2_dt - (r - t) ^ 3 * dr1_dt)) rs ts) \<and>
          partials (element_name s ''J'', tube_name s ''radius'') =
            Some (map2 (\<lambda>r t. 2 * pi * (r ^ 3 * dr2_dr - (r - t) ^ 3 * dr1_dr)) rs ts) \<and>
          partials (element_name s ''J'', tube_name s ''thickness'') =
            Some (map2 (\<lambda>r t. 2 * pi * (r ^ 3 * dr2_dt - (r - t) ^ 3 * dr1_dt)) rs ts)
      | _ \<Rightarrow> False)"

text \<open>The six variable names \<^verbatim>\<open>setup\<close> declares for the surface named \<open>s\<close>.\<close>

definition surface_names :: "string \<Rightarrow> string list" where
  "surface_names s =
     [tube_name s ''radius'', tube_name s ''thickness'', element_name s ''A'',
      element_name s ''Iy'', element_name s ''Iz'', element_name s ''J'']"

section \<open>Properties: names, errors and setup\<close>

lemma bind_err_Inr [simp]: "bind_err (Inr x) f = f x"
  by (simp add: bind_err_def)

lemma bind_err_Inl [simp]: "bind_err (Inl e) f = Inl e"
  by (simp add: bind_err_def)

lemma bind_err_eq_Inr: "bind_err m f = Inr y \<longleftrightarrow> (\<exists>x. m = Inr x \<and> f x = Inr y)"
  by (cases m) simp_all

lemma getitem_eq_Inr: "getitem m k = Inr v \<longleftrightarrow> m k = Some v"
  by (simp add: getitem_def split: option.splits)

lemma element_name_inject:
  assumes "x \<in> {''A'', ''Iy'', ''Iz'', ''J''}" "y \<in> {''A'', ''Iy'', ''Iz'', ''J''}"
  shows "element_name s x = element_name t y \<longleftrightarrow> s = t \<and> x = y"
proof
  assume eq: "element_name s x = element_name t y"
  then have "last (element_name s x) = last (element_name t y)" by simp
  with assms have xy: "x = y" by (auto simp: element_name_def)
  with eq show "s = t \<and> x = y" by (simp add: element_name_def)
qed simp

lemma tube_name_inject:
  assumes "x \<in> {''radius'', ''thickness''}" "y \<in> {''radius'', ''thickness''}"
  shows "tube_name s x = tube_name t y \<longleftrightarrow> s = t \<and> x = y"
proof
  assume eq: "tube_name s x = tube_name t y"
  then have "rev (tube_name s x) = rev (tube_name t y)" by simp
  with assms have xy: "x = y" by (auto simp: tube_name_def)
  with eq show "s = t \<and> x = y" by (simp add: tube_name_def)
qed simp

lemma np_sub_same_length: "length a = length b \<Longrightarrow> np_sub a b = Inr (map2 (-) a b)"
  by (simp add: np_sub_def)

section \<open>The loop of compute on well-shaped inputs\<close>

lemma same_shapeD:
  assumes "same_shape inputs s"
  shows "\<exists>rs ts. inputs (tube_name s ''radius'') = Some rs \<and>
    inputs (tube_name s ''thickness'') = Some ts \<and> length rs = length ts"
  using assms by (auto simp: same_shape_def split: option.splits)

lemma pow_sub_pow:
  assumes "length rs = length ts"
  shows "np_sub (np_pow rs n) (np_pow (map2 (-) rs ts) n) =
    Inr (map2 (\<lambda>r t. r ^ n - (r - t) ^ n) rs ts)"
  using assms by (simp add: np_sub_def np_pow_def list_eq_iff_nth_eq)

lemma np_lmul_map2: "np_lmul c (map2 f rs ts) = map2 (\<lambda>r t. c * f r t) rs ts"
  by (simp add: np_lmul_def comp_def case_prod_unfold)

lemma np_div_map2: "np_div (map2 f rs ts) c = map2 (\<lambda>r t. f r t / c) rs ts"
  by (simp add: np_div_def comp_def case_prod_unfold)

lemma compute_surface_same_length:
  assumes "inputs (tube_name s ''radius'') = Some rs"
    and "inputs (tube_name s ''thickness'') = Some ts"
    and "length rs = length ts"
  shows "compute_surface (s, d) inputs outputs = Inr (outputs(
      element_name s ''A'' \<mapsto> map2 (\<lambda>r t. pi * (r ^ 2 - (r - t) ^ 2)) rs ts,
      element_name s ''Iy'' \<mapsto> map2 (\<lambda>r t. pi * (r ^ 4 - (r - t) ^ 4) / 4) rs ts,
      element_name s ''Iz'' \<mapsto> map2 (\<lambda>r t. pi * (r ^ 4 - (r - t) ^ 4) / 4) rs ts,
      element_name s ''J'' \<mapsto> map2 (\<lambda>r t. pi * (r ^ 4 - (r - t) ^ 4) / 2) rs ts))"
  using assms
  by (simp add: compute_surface_def getitem_def Let_def np_sub_same_length pow_sub_pow
      np_lmul_map2 np_div_map2)

lemma element_name_neq [simp]:
  "element_name s ''A'' \<noteq> element_name t ''Iy''" "element_name s ''A'' \<noteq> element_name t ''Iz''"
  "element_name s ''A'' \<noteq> element_name t ''J''" "element_name s ''Iy'' \<noteq> element_name t ''A''"
  "element_name s ''Iy'' \<noteq> element_name t ''Iz''" "element_name s ''Iy'' \<noteq> element_name t ''J''"
  "element_name s ''Iz'' \<noteq> element_name t ''A''" "element_name s ''Iz'' \<noteq> element_name t ''Iy''"
  "element_name s ''Iz'' \<noteq> element_name t ''J''" "element_name s ''J'' \<noteq> element_name t ''A''"
  "element_name s ''J'' \<noteq> element_name t ''Iy''" "element_name s ''J'' \<noteq> element_name t ''Iz''"
  by (simp_all add: element_name_inject)

lemma element_name_same [simp]: "element_name s x = element_name t x \<longleftrightarrow> s = t"
  by (simp add: element_name_def)

lemma tube_name_same [simp]: "tube_name s x = tube_name t x \<longleftrightarrow> s = t"
  by (simp add: tube_name_def)

lemma tube_name_neq [simp]:
  "tube_name s ''radius'' \<noteq> tube_name t ''thickness''"
  "tube_name s ''thickness'' \<noteq> tube_name t ''radius''"
  by (simp_all add: tube_name_inject)

lemma compute_surface_establishes:
  assumes "same_shape inputs s"
  shows "\<exists>outs. compute_surface (s, d) inputs outputs = Inr outs \<and> surface_outputs inputs s outs"
proof -
  from assms obtain rs ts where *: "inputs (tube_name s ''radius'') = Some rs"
    "inputs (tube_name s ''thickness'') = Some ts" "length rs = length ts"
    using same_shapeD by blast
  show ?thesis
    unfolding compute_surface_same_length [OF *]
    by (simp add: surface_outputs_def *)
qed

lemma compute_surface_preserves:
  assumes "compute_surface (s', d) inputs outputs = Inr outs"
    and "same_shape inputs s'"
    and "surface_outputs inputs s outputs"
  shows "surface_outputs inputs s outs"
proof (cases "s = s'")
  case True
  with compute_surface_establishes [OF assms(2), of d outputs] assms(1) show ?thesis by auto
next
  case False
  from assms(2) obtain rs ts where *: "inputs (tube_name s' ''radius'') = Some rs"
    "inputs (tube_name s' ''thickness'') = Some ts" "length rs = length ts"
    using same_shapeD by blast
  from assms(1) have "outs = outputs(
      element_name s' ''A'' \<mapsto> map2 (\<lambda>r t. pi * (r ^ 2 - (r - t) ^ 2)) rs ts,
      element_name s' ''Iy'' \<mapsto> map2 (\<lambda>r t. pi * (r ^ 4 - (r - t) ^ 4) / 4) rs ts,
      element_name s' ''Iz'' \<mapsto> map2 (\<lambda>r t. pi * (r ^ 4 - (r - t) ^ 4) / 4) rs ts,
      element_name s' ''J'' \<mapsto> map2 (\<lambda>r t. pi * (r ^ 4 - (r - t) ^ 4) / 2) rs ts)"
    unfolding compute_surface_same_length [OF *] by simp
  with False assms(3) show ?thesis
    by (auto simp: surface_outputs_def split: option.splits)
qed

lemma compute_loop_outputs:
  assumes "\<forall>(s, d) \<in> set ss. same_shape inputs s"
  shows "\<exists>outs. compute_loop ss inputs outputs = Inr outs \<and>
    (\<forall>(s, d) \<in> set ss. surface_outputs inputs s outs) \<and>
    (\<forall>s. surface_outputs inputs s outputs \<longrightarrow> surface_outputs inputs s outs)"
  using assms
proof (induction ss arbitrary: outputs)
  case Nil
  then show ?case by simp
next
  case (Cons sd ss)
  obtain s d where sd: "sd = (s, d)" by (cases sd)
  from Cons.prems sd have sh: "same_shape inputs s" by simp
  from compute_surface_establishes [OF sh] obtain o1
    where o1: "compute_surface (s, d) inputs outputs = Inr o1" "surface_outputs inputs s o1"
    by blast
  from Cons.prems have "\<forall>(s, d) \<in> set ss. same_shape inputs s" by simp
  from Cons.IH [OF this, of o1] obtain outs
    where outs: "compute_loop ss inputs o1 = Inr outs"
      "\<forall>(s, d) \<in> set ss. surface_outputs inputs s outs"
      "\<forall>s. surface_outputs inputs s o1 \<longrightarrow> surface_outputs inputs s outs"
    by blast
  have "\<forall>t. surface_outputs inputs t outputs \<longrightarrow> surface_outputs inputs t outs"
    using compute_surface_preserves [OF o1(1) sh] outs(3) by blast
  with o1 outs sd show ?case by auto
qed

section \<open>The loop of the partials on well-shaped inputs\<close>

lemma rmul_sub_rmul:
  assumes "length rs = length ts"
  shows "np_sub (np_rmul rs a) (np_rmul (map2 (-) rs ts) b) =
    Inr (map2 (\<lambda>r t. r * a - (r - t) * b) rs ts)"
  using assms by (simp add: np_sub_def np_rmul_def list_eq_iff_nth_eq)

lemma pow_rmul_sub:
  assumes "length rs = length ts"
  shows "np_sub (np_rmul (np_pow rs n) a) (np_rmul (np_pow (map2 (-) rs ts) n) b) =
    Inr (map2 (\<lambda>r t. r ^ n * a - (r - t) ^ n * b) rs ts)"
  using assms by (simp add: np_sub_def np_rmul_def np_pow_def list_eq_iff_nth_eq)

lemma compute_partials_surface_same_length:
  assumes "inputs (tube_name s ''radius'') = Some rs"
    and "inputs (tube_name s ''thickness'') = Some ts"
    and "length rs = length ts"
  shows "compute_partials_surface (s, d) inputs partials = Inr (partials(
      (element_name s ''A'', tube_name s ''radius'') \<mapsto>
         map2 (\<lambda>r t. 2 * pi * (r * dr2_dr - (r - t) * dr1_dr)) rs ts,
      (element_name s ''A'', tube_name s ''thickness'') \<mapsto>
         map2 (\<lambda>r t. 2 * pi * (r * dr2_dt - (r - t) * dr1_dt)) rs ts,
      (element_name s ''Iy'', tube_name s ''radius'') \<mapsto>
         map2 (\<lambda>r t. pi * (r ^ 3 * dr2_dr - (r - t) ^ 3 * dr1_dr)) rs ts,
      (element_name s ''Iy'', tube_name s ''thickness'') \<mapsto>
         map2 (\<lambda>r t. pi * (r ^ 3 * dr2_dt - (r - t) ^ 3 * dr1_dt)) rs ts,
      (element_name s ''Iz'', tube_name s ''radius'') \<mapsto>
         map2 (\<lambda>r t. pi * (r ^ 3 * dr2_dr - (r - t) ^ 3 * dr1_dr)) rs ts,
      (element_name s ''Iz'', tube_name s ''thickness'') \<mapsto>
         map2 (\<lambda>r t. pi * (r ^ 3 * dr2_dt - (r - t) ^ 3 * dr1_dt)) rs ts,
      (element_name s ''J'', tube_name s ''radius'') \<mapsto>
         map2 (\<lambda>r t. 2 * pi * (r ^ 3 * dr2_dr - (r - t) ^ 3 * dr1_dr)) rs ts,
      (element_name s ''J'', tube_name s ''thickness'') \<mapsto>
         map2 (\<lambda>r t. 2 * pi * (r ^ 3 * dr2_dt - (r - t) ^ 3 * dr1_dt)) rs ts))"
  using assms
  by (simp add: compute_partials_surface_def getitem_def Let_def np_sub_same_length
      rmul_sub_rmul pow_rmul_sub np_lmul_map2)

lemma compute_partials_surface_establishes:
  assumes "same_shape inputs s"
  shows "\<exists>p. compute_partials_surface (s, d) inputs partials = Inr p \<and>
    surface_partials inputs s p"
proof -
  from assms obtain rs ts where *: "inputs (tube_name s ''radius'') = Some rs"
    "inputs (tube_name s ''thickness'') = Some ts" "length rs = length ts"
    using same_shapeD by blast
  show ?thesis
    unfolding compute_partials_surface_same_length [OF *]
    by (simp add: surface_partials_def *)
qed

lemma compute_partials_surface_preserves:
  assumes "compute_partials_surface (s', d) inputs partials = Inr p"
    and "same_shape inputs s'"
    and "surface_partials inputs s partials"
  shows "surface_partials inputs s p"
proof (cases "s = s'")
  case True
  with compute_partials_surface_establishes [OF assms(2), of d partials] assms(1)
  show ?thesis by auto
next
  case False
  from assms(2) obtain rs ts where *: "inputs (tube_name s' ''radius'') = Some rs"
    "inputs (tube_name s' ''thickness'') = Some ts" "length rs = length ts"
    using same_shapeD by blast
  from assms(1) have "\<forall>x \<in> {''A'', ''Iy'', ''Iz'', ''J''}. \<forall>y.
      p (element_name s x, y) = partials (element_name s x, y)"
    unfolding compute_partials_surface_same_length [OF *] using False by auto
  with assms(3) show ?thesis
    by (auto simp: surface_partials_def split: option.splits)
qed

lemma compute_partials_loop_result:
  assumes "\<forall>(s, d) \<in> set ss. same_shape inputs s"
  shows "\<exists>p. compute_partials_loop ss inputs partials = Inr p \<and>
    (\<forall>(s, d) \<in> set ss. surface_partials inputs s p) \<and>
    (\<forall>s. surface_partials inputs s partials \<longrightarrow> surface_partials inputs s p)"
  using assms
proof (induction ss arbitrary: partials)
  case Nil
  then show ?case by simp
next
  case (Cons sd ss)
  obtain s d where sd: "sd = (s, d)" by (cases sd)
  from Cons.prems sd have sh: "same_shape inputs s" by simp
  from compute_partials_surface_establishes [OF sh] obtain p1
    where p1: "compute_partials_surface (s, d) inputs partials = Inr p1"
      "surface_partials inputs s p1"
    by blast
  from Cons.prems have "\<forall>(s, d) \<in> set ss. same_shape inputs s" by simp
  from Cons.IH [OF this, of p1] obtain p
    where p: "compute_partials_loop ss inputs p1 = Inr p"
      "\<forall>(s, d) \<in> set ss. surface_partials inputs s p"
      "\<forall>s. surface_partials inputs s p1 \<longrightarrow> surface_partials inputs s p"
    by blast
  have "\<forall>t. surface_partials inputs t partials \<longrightarrow> surface_partials inputs t p"
    using compute_partials_surface_preserves [OF p1(1) sh] p(3) by blast
  with p1 p sd show ?case by auto
qed

section \<open>The formulas of the outputs and of the partials, and the declarations of setup\<close>

lemma compute_at_index:
  assumes "\<forall>(s, d) \<in> set lifting_surfaces. same_shape inputs s"
    and "(s, d) \<in> set lifting_surfaces"
    and "inputs (tube_name s ''radius'') = Some radius"
    and "inputs (tube_name s ''thickness'') = Some thickness"
    and "i < length radius"
  shows "\<exists>outs A Iy Iz J.
    compute lifting_surfaces inputs outputs = Inr outs \<and>
    outs (element_name s ''A'') = Some A \<and> outs (element_name s ''Iy'') = Some Iy \<and>
    outs (element_name s ''Iz'') = Some Iz \<and> outs (element_name s ''J'') = Some J \<and>
    length A = length radius \<and> length Iy = length radius \<and>
    length Iz = length radius \<and> length J = length radius \<and>
    (let r1 = radius ! i - thickness ! i; r2 = radius ! i in
     A ! i = pi * (r2 ^ 2 - r1 ^ 2) \<and>
     Iy ! i = pi * (r2 ^ 4 - r1 ^ 4) / 4 \<and>
     Iz ! i = pi * (r2 ^ 4 - r1 ^ 4) / 4 \<and>
     J ! i = pi * (r2 ^ 4 - r1 ^ 4) / 2)"
proof -
  from compute_loop_outputs [OF assms(1), of outputs] obtain outs
    where outs: "compute_loop lifting_surfaces inputs outputs = Inr outs"
      and all: "\<forall>(s, d) \<in> set lifting_surfaces. surface_outputs inputs s outs"
    by blast
  from all assms(2) have so: "surface_outputs inputs s outs" by auto
  from assms(1,2) have "same_shape inputs s" by auto
  with assms(3,4) have len: "length radius = length thickness"
    by (simp add: same_shape_def)
  from so outs len assms(3-5) show ?thesis
    by (simp add: compute_def surface_outputs_def Let_def)
qed

lemma compute_partials_at_index:
  assumes "\<forall>(s, d) \<in> set lifting_surfaces. same_shape inputs s"
    and "(s, d) \<in> set lifting_surfaces"
    and "inputs (tube_name s ''radius'') = Some radius"
    and "inputs (tube_name s ''thickness'') = Some thickness"
    and "i < length radius"
  shows "\<exists>p dA_dr dA_dt dIy_dr dIy_dt dIz_dr dIz_dt dJ_dr dJ_dt.
    compute_partials lifting_surfaces inputs partials = Inr p \<and>
    p (element_name s ''A'', tube_name s ''radius'') = Some dA_dr \<and>
    p (element_name s ''A'', tube_name s ''thickness'') = Some dA_dt \<and>
    p (element_name s ''Iy'', tube_name s ''radius'') = Some dIy_dr \<and>
    p (element_name s ''Iy'', tube_name s ''thickness'') = Some dIy_dt \<and>
    p (element_name s ''Iz'', tube_name s ''radius'') = Some dIz_dr \<and>
    p (element_name s ''Iz'', tube_name s ''thickness'') = Some dIz_dt \<and>
    p (element_name s ''J'', tube_name s ''radius'') = Some dJ_dr \<and>
    p (element_name s ''J'', tube_name s ''thickness'') = Some dJ_dt \<and>
    length dA_dr = length radius \<and> length dA_dt = length radius \<and>
    length dIy_dr = length radius \<and> length dIy_dt = length radius \<and>
    length dIz_dr = length radius \<and> length dIz_dt = length radius \<and>
    length dJ_dr = length radius \<and> length dJ_dt = length radius \<and>
    (let r1 = radius ! i - thickness ! i; r2 = radius ! i in
     dA_dr ! i = 2 * pi * (r2 - r1) \<and>
     dA_dt ! i = 2 * pi * r1 \<and>
     dIy_dr ! i = pi * (r2 ^ 3 - r1 ^ 3) \<and>
     dIy_dt ! i = pi * r1 ^ 3 \<and>
     dIz_dr ! i = pi * (r2 ^ 3 - r1 ^ 3) \<and>
     dIz_dt ! i = pi * r1 ^ 3 \<and>
     dJ_dr ! i = 2 * pi * (r2 ^ 3 - r1 ^ 3) \<and>
     dJ_dt ! i = 2 * pi * r1 ^ 3)"
proof -
  from compute_partials_loop_result [OF assms(1), of partials] obtain p
    where p: "compute_partials_loop lifting_surfaces inputs partials = Inr p"
      and all: "\<forall>(s, d) \<in> set lifting_surfaces. surface_partials inputs s p"
    by blast
  from all assms(2) have sp: "surface_partials inputs s p" by auto
  from assms(1,2) have "same_shape inputs s" by auto
  with assms(3,4) have len: "length radius = length thickness"
    by (simp add: same_shape_def)
  from sp p len assms(3-5) show ?thesis
    by (simp add: compute_partials_def surface_partials_def Let_def
        dr1_dr_def dr2_dr_def dr1_dt_def dr2_dt_def)
qed

text \<open>
  Claim C1. For every declared surface and every index \<open>i\<close>, \<^verbatim>\<open>compute\<close> returns and
  sets the four outputs of the surface, each as long as the inputs, from
  \<open>r1 = radius[i] - thickness[i]\<close> and \<open>r2 = radius[i]\<close> as
  \<open>A[i] = pi (r2\<^sup>2 - r1\<^sup>2)\<close>, \<open>Iy[i] = Iz[i] = pi (r2\<^sup>4 - r1\<^sup>4) / 4\<close> and
  \<open>J[i] = pi (r2\<^sup>4 - r1\<^sup>4) / 2\<close>. The inputs hold, for every surface of the
  list, a radius and a thickness array of one length.
\<close>

theorem compute_formulas:
  assumes "\<forall>(s, d) \<in> set lifting_surfaces. same_shape inputs s"
    and "(s, d) \<in> set lifting_surfaces"
    and "inputs (tube_name s ''radius'') = Some radius"
    and "inputs (tube_name s ''thickness'') = Some thickness"
    and "i < length radius"
  shows "\<exists>outs A Iy Iz J.
    compute lifting_surfaces inputs outputs = Inr outs \<and>
    outs (element_name s ''A'') = Some A \<and> outs (element_name s ''Iy'') = Some Iy \<and>
    outs (element_name s ''Iz'') = Some Iz \<and> outs (element_name s ''J'') = Some J \<and>
    length A = length radius \<and> length Iy = length radius \<and>
    length Iz = length radius \<and> length J = length radius \<and>
    (let r1 = radius ! i - thickness ! i; r2 = radius ! i in
     A ! i = pi * (r2 ^ 2 - r1 ^ 2) \<and>
     Iy ! i = pi * (r2 ^ 4 - r1 ^ 4) / 4 \<and>
     Iz ! i = pi * (r2 ^ 4 - r1 ^ 4) / 4 \<and>
     J ! i = pi * (r2 ^ 4 - r1 ^ 4) / 2)"
  using assms by (rule compute_at_index)

theorem compute_formulas_witness:
  "\<exists>outs A Iy Iz J.
    compute [(''wing'', [''num_points_z_half'' \<mapsto> 2])]
      [''wing_tube_radius'' \<mapsto> [1, 2], ''wing_tube_thickness'' \<mapsto> [1 / 10, 1 / 2]]
      Map.empty = Inr outs \<and>
    outs ''wing_element_A'' = Some A \<and> outs ''wing_element_Iy'' = Some Iy \<and>
    outs ''wing_element_Iz'' = Some Iz \<and> outs ''wing_element_J'' = Some J \<and>
    length A = 2 \<and> length Iy = 2 \<and> length Iz = 2 \<and> length J = 2 \<and>
    A ! 0 = pi * (19 / 100) \<and> Iy ! 0 = pi * (3439 / 10000) / 4 \<and>
    Iz ! 0 = pi * (3439 / 10000) / 4 \<and> J ! 0 = pi * (3439 / 10000) / 2"
  using compute_formulas [where lifting_surfaces = "[(''wing'', [''num_points_z_half'' \<mapsto> 2])]"
      and inputs = "[''wing_tube_radius'' \<mapsto> [1, 2], ''wing_tube_thickness'' \<mapsto> [1 / 10, 1 / 2]]"
      and s = "''wing''" and d = "[''num_points_z_half'' \<mapsto> 2]"
      and radius = "[1, 2]" and thickness = "[1 / 10, 1 / 2]" and i = 0
      and outputs = Map.empty]
  by (auto simp add: same_shape_def tube_name_def element_name_def power2_eq_square
      power4_eq_xxxx)

lemma tube_neq_element:
  assumes "x \<in> {''radius'', ''thickness''}" and "y \<in> {''A'', ''Iy'', ''Iz'', ''J''}"
  shows "tube_name s x \<noteq> element_name t y"
proof
  assume "tube_name s x = element_name t y"
  then have "last (tube_name s x) = last (element_name t y)" by simp
  with assms show False by (auto simp: tube_name_def element_name_def)
qed

lemma surface_names_disjoint:
  assumes "s \<noteq> t"
  shows "set (surface_names s) \<inter> set (surface_names t) = {}"
  using assms tube_neq_element [of _ _ s t] tube_neq_element [of _ _ t s, symmetric]
  by (auto simp: surface_names_def)

lemma setup_surface_Some:
  assumes "d ''num_points_z_half'' = Some h" and "1 \<le> h"
    and "set (surface_names s) \<inter> set (declared_names c) = {}"
  shows "setup_surface (s, d) c = Inr (c\<lparr>
     inputs_decl := inputs_decl c @
       [(tube_name s ''radius'', 2 * h - 2), (tube_name s ''thickness'', 2 * h - 2)],
     outputs_decl := outputs_decl c @
       [(element_name s ''A'', 2 * h - 2), (element_name s ''Iy'', 2 * h - 2),
        (element_name s ''Iz'', 2 * h - 2), (element_name s ''J'', 2 * h - 2)],
     partials_decl := partials_decl c @
       [(element_name s ''A'', tube_name s ''radius'', [0..2 * h - 3], [0..2 * h - 3]),
        (element_name s ''A'', tube_name s ''thickness'', [0..2 * h - 3], [0..2 * h - 3]),
        (element_name s ''Iy'', tube_name s ''radius'', [0..2 * h - 3], [0..2 * h - 3]),
        (element_name s ''Iy'', tube_name s ''thickness'', [0..2 * h - 3], [0..2 * h - 3]),
        (element_name s ''Iz'', tube_name s ''radius'', [0..2 * h - 3], [0..2 * h - 3]),
        (element_name s ''Iz'', tube_name s ''thickness'', [0..2 * h - 3], [0..2 * h - 3]),
        (element_name s ''J'', tube_name s ''radius'', [0..2 * h - 3], [0..2 * h - 3]),
        (element_name s ''J'', tube_name s ''thickness'', [0..2 * h - 3], [0..2 * h - 3])]\<rparr>)"
proof -
  from assms(3) have fresh:
    "tube_name s ''radius'' \<notin> fst ` set (inputs_decl c)"
    "tube_name s ''radius'' \<notin> fst ` set (outputs_decl c)"
    "tube_name s ''thickness'' \<notin> fst ` set (inputs_decl c)"
    "tube_name s ''thickness'' \<notin> fst ` set (outputs_decl c)"
    "element_name s ''A'' \<notin> fst ` set (inputs_decl c)"
    "element_name s ''A'' \<notin> fst ` set (outputs_decl c)"
    "element_name s ''Iy'' \<notin> fst ` set (inputs_decl c)"
    "element_name s ''Iy'' \<notin> fst ` set (outputs_decl c)"
    "element_name s ''Iz'' \<notin> fst ` set (inputs_decl c)"
    "element_name s ''Iz'' \<notin> fst ` set (outputs_decl c)"
    "element_name s ''J'' \<notin> fst ` set (inputs_decl c)"
    "element_name s ''J'' \<notin> fst ` set (outputs_decl c)"
    by (auto simp: surface_names_def declared_names_def)
  have neq: "element_name s y \<noteq> tube_name s x"
    if "x \<in> {''radius'', ''thickness''}" "y \<in> {''A'', ''Iy'', ''Iz'', ''J''}" for x y
    using tube_neq_element [OF that, of s s] by simp
  from assms(1,2) show ?thesis
    by (simp add: setup_surface_def getitem_def Let_def add_input_def add_output_def
        declare_partials_def np_arange_def declared_names_def fresh neq)
qed

lemma setup_loop_declares:
  assumes "\<forall>(s, d) \<in> set lifting_surfaces. \<exists>h. d ''num_points_z_half'' = Some h \<and> 1 \<le> h"
    and "distinct (map fst lifting_surfaces)"
    and "\<forall>(s, d) \<in> set lifting_surfaces. set (surface_names s) \<inter> set (declared_names c) = {}"
  shows "setup_loop lifting_surfaces c = Inr (c\<lparr>
    inputs_decl := inputs_decl c @ concat (map (\<lambda>(s, d).
       map (\<lambda>x. (tube_name s x, 2 * the (d ''num_points_z_half'') - 2))
         [''radius'', ''thickness'']) lifting_surfaces),
    outputs_decl := outputs_decl c @ concat (map (\<lambda>(s, d).
       map (\<lambda>y. (element_name s y, 2 * the (d ''num_points_z_half'') - 2))
         [''A'', ''Iy'', ''Iz'', ''J'']) lifting_surfaces),
    partials_decl := partials_decl c @ concat (map (\<lambda>(s, d).
       map (\<lambda>(y, x). (element_name s y, tube_name s x,
              [0..2 * the (d ''num_points_z_half'') - 2 - 1],
              [0..2 * the (d ''num_points_z_half'') - 2 - 1]))
         [(''A'', ''radius''), (''A'', ''thickness''), (''Iy'', ''radius''),
          (''Iy'', ''thickness''), (''Iz'', ''radius''), (''Iz'', ''thickness''),
          (''J'', ''radius''), (''J'', ''thickness'')]) lifting_surfaces)\<rparr>)"
  using assms
proof (induction lifting_surfaces arbitrary: c)
  case Nil
  then show ?case by simp
next
  case (Cons sd rest)
  obtain s d where sd: "sd = (s, d)" by (cases sd)
  with Cons.prems(1) obtain h where h: "d ''num_points_z_half'' = Some h" "1 \<le> h" by auto
  from Cons.prems(3) sd have fresh: "set (surface_names s) \<inter> set (declared_names c) = {}"
    by simp
  note step = setup_surface_Some [of d h s c, OF h fresh]
  define c' where "c' = c\<lparr>
     inputs_decl := inputs_decl c @
       [(tube_name s ''radius'', 2 * h - 2), (tube_name s ''thickness'', 2 * h - 2)],
     outputs_decl := outputs_decl c @
       [(element_name s ''A'', 2 * h - 2), (element_name s ''Iy'', 2 * h - 2),
        (element_name s ''Iz'', 2 * h - 2), (element_name s ''J'', 2 * h - 2)],
     partials_decl := partials_decl c @
       [(element_name s ''A'', tube_name s ''radius'', [0..2 * h - 3], [0..2 * h - 3]),
        (element_name s ''A'', tube_name s ''thickness'', [0..2 * h - 3], [0..2 * h - 3]),
        (element_name s ''Iy'', tube_name s ''radius'', [0..2 * h - 3], [0..2 * h - 3]),
        (element_name s ''Iy'', tube_name s ''thickness'', [0..2 * h - 3], [0..2 * h - 3]),
        (element_name s ''Iz'', tube_name s ''radius'', [0..2 * h - 3], [0..2 * h - 3]),
        (element_name s ''Iz'', tube_name s ''thickness'', [0..2 * h - 3], [0..2 * h - 3]),
        (element_name s ''J'', tube_name s ''radius'', [0..2 * h - 3], [0..2 * h - 3]),
        (element_name s ''J'', tube_name s ''thickness'', [0..2 * h - 3], [0..2 * h - 3])]\<rparr>"
  have names': "set (declared_names c') = set (declared_names c) \<union> set (surface_names s)"
    by (auto simp: c'_def declared_names_def surface_names_def)
  have p1: "\<forall>(s, d) \<in> set rest. \<exists>h. d ''num_points_z_half'' = Some h \<and> 1 \<le> h"
    using Cons.prems(1) by simp
  have p2: "distinct (map fst rest)" using Cons.prems(2) by simp
  have p3: "\<forall>(t, d) \<in> set rest. set (surface_names t) \<inter> set (declared_names c') = {}"
  proof -
    have "set (surface_names t) \<inter> set (declared_names c') = {}" if "(t, e) \<in> set rest" for t e
    proof -
      from that Cons.prems(2) sd have "t \<noteq> s" by force
      from surface_names_disjoint [OF this]
      have "set (surface_names t) \<inter> set (surface_names s) = {}" .
      moreover from Cons.prems(3) that
      have "set (surface_names t) \<inter> set (declared_names c) = {}" by auto
      ultimately show ?thesis using names' by auto
    qed
    then show ?thesis by auto
  qed
  have "setup_loop (sd # rest) c = setup_loop rest c'"
    by (simp add: sd step c'_def)
  also note Cons.IH [OF p1 p2 p3]
  finally show ?case
    by (simp add: sd c'_def h)
qed

lemma setup_nonpositive_count_raises:
  "setup_comp [(''wing'', [''num_points_z_half'' \<mapsto> 0])] = Inl ValueError"
  by (simp add: setup_comp_def setup_surface_def getitem_def add_input_def)

lemma setup_repeated_name_raises:
  "setup_comp [(''wing'', [''num_points_z_half'' \<mapsto> 2]),
      (''wing'', [''num_points_z_half'' \<mapsto> 2])] = Inl ValueError"
  by (simp add: setup_comp_def new_component_def setup_surface_def getitem_def add_input_def
      add_output_def declared_names_def declare_partials_def tube_name_def element_name_def
      Let_def)

text \<open>
  Claim C4. When the metadata of every surface gives \<^verbatim>\<open>num_points_z_half\<close>, a node
  count of at least 1, and the surfaces have different names,
  \<^verbatim>\<open>setup\<close> returns and has declared, surface by surface, exactly the two inputs
  \<^verbatim>\<open>radius\<close> and \<^verbatim>\<open>thickness\<close> and the four outputs \<^verbatim>\<open>A\<close>, \<^verbatim>\<open>Iy\<close>,
  \<^verbatim>\<open>Iz\<close>, \<^verbatim>\<open>J\<close>, all of shape \<open>n_elements = 2 * num_points_z_half - 2\<close>, and
  the 8 (output, input) partials with rows and columns both \<open>0, ..., n_elements - 1\<close>.
  (A count below 1 or a repeated name makes the framework refuse the declaration.)
\<close>

theorem setup_declarations:
  assumes "\<forall>(s, d) \<in> set lifting_surfaces. \<exists>h. d ''num_points_z_half'' = Some h \<and> 1 \<le> h"
    and "distinct (map fst lifting_surfaces)"
  shows "\<exists>c. setup_comp lifting_surfaces = Inr c \<and>
    inputs_decl c = concat (map (\<lambda>(s, d).
       map (\<lambda>x. (tube_name s x, 2 * the (d ''num_points_z_half'') - 2))
         [''radius'', ''thickness'']) lifting_surfaces) \<and>
    outputs_decl c = concat (map (\<lambda>(s, d).
       map (\<lambda>y. (element_name s y, 2 * the (d ''num_points_z_half'') - 2))
         [''A'', ''Iy'', ''Iz'', ''J'']) lifting_surfaces) \<and>
    partials_decl c = concat (map (\<lambda>(s, d).
       map (\<lambda>(y, x). (element_name s y, tube_name s x,
              [0..2 * the (d ''num_points_z_half'') - 2 - 1],
              [0..2 * the (d ''num_points_z_half'') - 2 - 1]))
         [(''A'', ''radius''), (''A'', ''thickness''), (''Iy'', ''radius''),
          (''Iy'', ''thickness''), (''Iz'', ''radius''), (''Iz'', ''thickness''),
          (''J'', ''radius''), (''J'', ''thickness'')]) lifting_surfaces)"
proof -
  have "\<forall>(s, d) \<in> set lifting_surfaces.
      set (surface_names s) \<inter> set (declared_names new_component) = {}"
    by (simp add: declared_names_def new_component_def)
  from setup_loop_declares [OF assms this] show ?thesis
    by (simp add: setup_comp_def new_component_def)
qed

theorem setup_declarations_witness:
  "\<exists>c. setup_comp [(''wing'', [''num_points_z_half'' \<mapsto> 3]),
                     (''tail'', [''num_points_z_half'' \<mapsto> 1])] = Inr c \<and>
    inputs_decl c = [(''wing_tube_radius'', 4), (''wing_tube_thickness'', 4),
       (''tail_tube_radius'', 0), (''tail_tube_thickness'', 0)] \<and>
    outputs_decl c = [(''wing_element_A'', 4), (''wing_element_Iy'', 4),
       (''wing_element_Iz'', 4), (''wing_element_J'', 4),
       (''tail_element_A'', 0), (''tail_element_Iy'', 0),
       (''tail_element_Iz'', 0), (''tail_element_J'', 0)] \<and>
    partials_decl c =
      [(''wing_element_A'', ''wing_tube_radius'', [0, 1, 2, 3], [0, 1, 2, 3]),
       (''wing_element_A'', ''wing_tube_thickness'', [0, 1, 2, 3], [0, 1, 2, 3]),
       (''wing_element_Iy'', ''wing_tube_radius'', [0, 1, 2, 3], [0, 1, 2, 3]),
       (''wing_element_Iy'', ''wing_tube_thickness'', [0, 1, 2, 3], [0, 1, 2, 3]),
       (''wing_element_Iz'', ''wing_tube_radius'', [0, 1, 2, 3], [0, 1, 2, 3]),
       (''wing_element_Iz'', ''wing_tube_thickness'', [0, 1, 2, 3], [0, 1, 2, 3]),
       (''wing_element_J'', ''wing_tube_radius'', [0, 1, 2, 3], [0, 1, 2, 3]),
       (''wing_element_J'', ''wing_tube_thickness'', [0, 1, 2, 3], [0, 1, 2, 3]),
       (''tail_element_A'', ''tail_tube_radius'', [], []),
       (''tail_element_A'', ''tail_tube_thickness'', [], []),
       (''tail_element_Iy'', ''tail_tube_radius'', [], []),
       (''tail_element_Iy'', ''tail_tube_thickness'', [], []),
       (''tail_element_Iz'', ''tail_tube_radius'', [], []),
       (''tail_element_Iz'', ''tail_tube_thickness'', [], []),
       (''tail_element_J'', ''tail_tube_radius'', [], []),
       (''tail_element_J'', ''tail_tube_thickness'', [], [])]"
  using setup_declarations [of "[(''wing'', [''num_points_z_half'' \<mapsto> 3]),
      (''tail'', [''num_points_z_half'' \<mapsto> 1])]"]
  by (simp add: tube_name_def element_name_def upto_rec1)

text \<open>
  Claim C2. For every declared surface and every index \<open>i\<close>, \<^verbatim>\<open>compute_partials\<close>
  returns and fills each of the 8 (output, input) pairs of the surface with the closed
  forms, where \<open>r1 = radius[i] - thickness[i]\<close> and \<open>r2 = radius[i]\<close>:
  \<open>dA/dradius = 2 pi (r2 - r1)\<close>, \<open>dA/dthickness = 2 pi r1\<close>,
  \<open>dIy/dradius = dIz/dradius = pi (r2\<^sup>3 - r1\<^sup>3)\<close>,
  \<open>dIy/dthickness = dIz/dthickness = pi r1\<^sup>3\<close>,
  \<open>dJ/dradius = 2 pi (r2\<^sup>3 - r1\<^sup>3)\<close> and \<open>dJ/dthickness = 2 pi r1\<^sup>3\<close>.
\<close>

theorem compute_partials_formulas:
  assumes "\<forall>(s, d) \<in> set lifting_surfaces. same_shape inputs s"
    and "(s, d) \<in> set lifting_surfaces"
    and "inputs (tube_name s ''radius'') = Some radius"
    and "inputs (tube_name s ''thickness'') = Some thickness"
    and "i < length radius"
  shows "\<exists>p dA_dr dA_dt dIy_dr dIy_dt dIz_dr dIz_dt dJ_dr dJ_dt.
    compute_partials lifting_surfaces inputs partials = Inr p \<and>
    p (element_name s ''A'', tube_name s ''radius'') = Some dA_dr \<and>
    p (element_name s ''A'', tube_name s ''thickness'') = Some dA_dt \<and>
    p (element_name s ''Iy'', tube_name s ''radius'') = Some dIy_dr \<and>
    p (element_name s ''Iy'', tube_name s ''thickness'') = Some dIy_dt \<and>
    p (element_name s ''Iz'', tube_name s ''radius'') = Some dIz_dr \<and>
    p (element_name s ''Iz'', tube_name s ''thickness'') = Some dIz_dt \<and>
    p (element_name s ''J'', tube_name s ''radius'') = Some dJ_dr \<and>
    p (element_name s ''J'', tube_name s ''thickness'') = Some dJ_dt \<and>
    length dA_dr = length radius \<and> length dA_dt = length radius \<and>
    length dIy_dr = length radius \<and> length dIy_dt = length radius \<and>
    length dIz_dr = length radius \<and> length dIz_dt = length radius \<and>
    length dJ_dr = length radius \<and> length dJ_dt = length radius \<and>
    (let r1 = radius ! i - thickness ! i; r2 = radius ! i in
     dA_dr ! i = 2 * pi * (r2 - r1) \<and>
     dA_dt ! i = 2 * pi * r1 \<and>
     dIy_dr ! i = pi * (r2 ^ 3 - r1 ^ 3) \<and>
     dIy_dt ! i = pi * r1 ^ 3 \<and>
     dIz_dr ! i = pi * (r2 ^ 3 - r1 ^ 3) \<and>
     dIz_dt ! i = pi * r1 ^ 3 \<and>
     dJ_dr ! i = 2 * pi * (r2 ^ 3 - r1 ^ 3) \<and>
     dJ_dt ! i = 2 * pi * r1 ^ 3)"
  using assms by (rule compute_partials_at_index)

theorem compute_partials_formulas_witness:
  "\<exists>p dA_dr dA_dt dIy_dr dIy_dt dIz_dr dIz_dt dJ_dr dJ_dt.
    compute_partials [(''wing'', [''num_points_z_half'' \<mapsto> 2])]
      [''wing_tube_radius'' \<mapsto> [1, 2], ''wing_tube_thickness'' \<mapsto> [1 / 10, 1 / 2]]
      Map.empty = Inr p \<and>
    p (''wing_element_A'', ''wing_tube_radius'') = Some dA_dr \<and>
    p (''wing_element_A'', ''wing_tube_thickness'') = Some dA_dt \<and>
    p (''wing_element_Iy'', ''wing_tube_radius'') = Some dIy_dr \<and>
    p (''wing_element_Iy'', ''wing_tube_thickness'') = Some dIy_dt \<and>
    p (''wing_element_Iz'', ''wing_tube_radius'') = Some dIz_dr \<and>
    p (''wing_element_Iz'', ''wing_tube_thickness'') = Some dIz_dt \<and>
    p (''wing_element_J'', ''wing_tube_radius'') = Some dJ_dr \<and>
    p (''wing_element_J'', ''wing_tube_thickness'') = Some dJ_dt \<and>
    dA_dr ! 0 = 2 * pi * (1 / 10) \<and> dA_dt ! 0 = 2 * pi * (9 / 10) \<and>
    dIy_dr ! 0 = pi * (271 / 1000) \<and> dIy_dt ! 0 = pi * (729 / 1000) \<and>
    dIz_dr ! 0 = pi * (271 / 1000) \<and> dIz_dt ! 0 = pi * (729 / 1000) \<and>
    dJ_dr ! 0 = 2 * pi * (271 / 1000) \<and> dJ_dt ! 0 = 2 * pi * (729 / 1000)"
  using compute_partials_formulas [where lifting_surfaces = "[(''wing'', [''num_points_z_half'' \<mapsto> 2])]"
      and inputs = "[''wing_tube_radius'' \<mapsto> [1, 2], ''wing_tube_thickness'' \<mapsto> [1 / 10, 1 / 2]]"
      and s = "''wing''" and d = "[''num_points_z_half'' \<mapsto> 2]"
      and radius = "[1, 2]" and thickness = "[1 / 10, 1 / 2]" and i = 0
      and partials = Map.empty]
  by (auto simp add: same_shape_def tube_name_def element_name_def power3_eq_cube)

section \<open>Negative inner radius\<close>


text \<open>
  Claim C8. Where \<open>thickness[i] > radius[i]\<close> at an index \<open>i\<close> (negative inner radius),
  \<^verbatim>\<open>compute\<close> and \<^verbatim>\<open>compute_partials\<close> raise no error: both return, and entry
  \<open>i\<close> of every output and of every partial holds the same formula as in the valid
  regime.
\<close>

theorem negative_inner_radius_no_error:
  assumes "\<forall>(s, d) \<in> set lifting_surfaces. same_shape inputs s"
    and "(s, d) \<in> set lifting_surfaces"
    and "inputs (tube_name s ''radius'') = Some radius"
    and "inputs (tube_name s ''thickness'') = Some thickness"
    and "i < length radius"
    and "radius ! i < thickness ! i"
  shows "\<exists>outs p.
    compute lifting_surfaces inputs outputs = Inr outs \<and>
    compute_partials lifting_surfaces inputs partials = Inr p \<and>
    (let r1 = radius ! i - thickness ! i; r2 = radius ! i;
         out = (\<lambda>y. map_option (\<lambda>a. a ! i) (outs (element_name s y)));
         partial = (\<lambda>y x. map_option (\<lambda>a. a ! i) (p (element_name s y, tube_name s x)))
     in r1 < 0 \<and>
        out ''A'' = Some (pi * (r2 ^ 2 - r1 ^ 2)) \<and>
        out ''Iy'' = Some (pi * (r2 ^ 4 - r1 ^ 4) / 4) \<and>
        out ''Iz'' = Some (pi * (r2 ^ 4 - r1 ^ 4) / 4) \<and>
        out ''J'' = Some (pi * (r2 ^ 4 - r1 ^ 4) / 2) \<and>
        partial ''A'' ''radius'' = Some (2 * pi * (r2 - r1)) \<and>
        partial ''A'' ''thickness'' = Some (2 * pi * r1) \<and>
        partial ''Iy'' ''radius'' = Some (pi * (r2 ^ 3 - r1 ^ 3)) \<and>
        partial ''Iy'' ''thickness'' = Some (pi * r1 ^ 3) \<and>
        partial ''Iz'' ''radius'' = Some (pi * (r2 ^ 3 - r1 ^ 3)) \<and>
        partial ''Iz'' ''thickness'' = Some (pi * r1 ^ 3) \<and>
        partial ''J'' ''radius'' = Some (2 * pi * (r2 ^ 3 - r1 ^ 3)) \<and>
        partial ''J'' ''thickness'' = Some (2 * pi * r1 ^ 3))"
  using compute_at_index [OF assms(1-5), of outputs]
    compute_partials_at_index [OF assms(1-5), of partials] assms(6)
  by (auto simp: Let_def)

theorem negative_inner_radius_no_error_witness:
  "\<exists>outs p.
    compute [(''wing'', [''num_points_z_half'' \<mapsto> 2])]
      [''wing_tube_radius'' \<mapsto> [1, 2], ''wing_tube_thickness'' \<mapsto> [3, 1 / 2]]
      Map.empty = Inr outs \<and>
    compute_partials [(''wing'', [''num_points_z_half'' \<mapsto> 2])]
      [''wing_tube_radius'' \<mapsto> [1, 2], ''wing_tube_thickness'' \<mapsto> [3, 1 / 2]]
      Map.empty = Inr p \<and>
    map_option (\<lambda>a. a ! 0) (outs ''wing_element_A'') = Some (pi * (1 - 4)) \<and>
    map_option (\<lambda>a. a ! 0) (outs ''wing_element_Iy'') = Some (pi * (1 - 16) / 4) \<and>
    map_option (\<lambda>a. a ! 0) (outs ''wing_element_Iz'') = Some (pi * (1 - 16) / 4) \<and>
    map_option (\<lambda>a. a ! 0) (outs ''wing_element_J'') = Some (pi * (1 - 16) / 2) \<and>
    map_option (\<lambda>a. a ! 0) (p (''wing_element_A'', ''wing_tube_radius'')) = Some (2 * pi * 3) \<and>
    map_option (\<lambda>a. a ! 0) (p (''wing_element_A'', ''wing_tube_thickness'')) = Some (2 * pi * (- 2)) \<and>
    map_option (\<lambda>a. a ! 0) (p (''wing_element_Iy'', ''wing_tube_radius'')) = Some (pi * 9) \<and>
    map_option (\<lambda>a. a ! 0) (p (''wing_element_Iy'', ''wing_tube_thickness'')) = Some (pi * (- 8)) \<and>
    map_option (\<lambda>a. a ! 0) (p (''wing_element_Iz'', ''wing_tube_radius'')) = Some (pi * 9) \<and>
    map_option (\<lambda>a. a ! 0) (p (''wing_element_Iz'', ''wing_tube_thickness'')) = Some (pi * (- 8)) \<and>
    map_option (\<lambda>a. a ! 0) (p (''wing_element_J'', ''wing_tube_radius'')) = Some (2 * pi * 9) \<and>
    map_option (\<lambda>a. a ! 0) (p (''wing_element_J'', ''wing_tube_thickness'')) = Some (2 * pi * (- 8))"
  using negative_inner_radius_no_error
     [where lifting_surfaces = "[(''wing'', [''num_points_z_half'' \<mapsto> 2])]"
      and inputs = "[''wing_tube_radius'' \<mapsto> [1, 2], ''wing_tube_thickness'' \<mapsto> [3, 1 / 2]]"
      and s = "''wing''" and d = "[''num_points_z_half'' \<mapsto> 2]"
      and radius = "[1, 2]" and thickness = "[3, 1 / 2]" and i = 0
      and outputs = Map.empty and partials = Map.empty]
  by (auto simp add: same_shape_def tube_name_def element_name_def Let_def)

section \<open>Iy and Iz\<close>

lemma compute_surface_writes:
  assumes "compute_surface (s, d) inputs outputs = Inr outs"
  shows "\<exists>a b c. outs = outputs(element_name s ''A'' \<mapsto> a, element_name s ''Iy'' \<mapsto> b,
    element_name s ''Iz'' \<mapsto> b, element_name s ''J'' \<mapsto> c)"
proof -
  from assms obtain xd xg where
    "outs = outputs(element_name s ''A'' \<mapsto> np_lmul pi xd,
       element_name s ''Iy'' \<mapsto> np_div (np_lmul pi xg) 4,
       element_name s ''Iz'' \<mapsto> np_div (np_lmul pi xg) 4,
       element_name s ''J'' \<mapsto> np_div (np_lmul pi xg) 2)"
    by (auto simp: compute_surface_def Let_def bind_err_eq_Inr getitem_eq_Inr)
  then show ?thesis by blast
qed

lemma compute_surface_Iy_Iz:
  assumes "compute_surface (s', d) inputs outputs = Inr outs"
    and "s = s' \<or> (\<exists>b. outputs (element_name s ''Iy'') = Some b \<and>
      outputs (element_name s ''Iz'') = Some b)"
  shows "\<exists>b. outs (element_name s ''Iy'') = Some b \<and> outs (element_name s ''Iz'') = Some b"
proof -
  from compute_surface_writes [OF assms(1)] obtain a b c where
    "outs = outputs(element_name s' ''A'' \<mapsto> a, element_name s' ''Iy'' \<mapsto> b,
      element_name s' ''Iz'' \<mapsto> b, element_name s' ''J'' \<mapsto> c)" by blast
  with assms(2) show ?thesis by auto
qed

lemma compute_loop_Iy_Iz:
  assumes "compute_loop ss inputs outputs = Inr outs"
    and "(s, d) \<in> set ss \<or> (\<exists>b. outputs (element_name s ''Iy'') = Some b \<and>
      outputs (element_name s ''Iz'') = Some b)"
  shows "\<exists>b. outs (element_name s ''Iy'') = Some b \<and> outs (element_name s ''Iz'') = Some b"
  using assms
proof (induction ss arbitrary: outputs)
  case Nil
  then show ?case by simp
next
  case (Cons sd ss)
  obtain s' d' where sd: "sd = (s', d')" by (cases sd)
  from Cons.prems(1) sd obtain o1 where
    o1: "compute_surface (s', d') inputs outputs = Inr o1" "compute_loop ss inputs o1 = Inr outs"
    by (auto simp: bind_err_eq_Inr)
  show ?case
  proof (cases "(s, d) \<in> set ss")
    case True
    with Cons.IH [OF o1(2)] show ?thesis by simp
  next
    case False
    with Cons.prems(2) sd have "s = s' \<or> (\<exists>b. outputs (element_name s ''Iy'') = Some b \<and>
      outputs (element_name s ''Iz'') = Some b)"
      by auto
    from compute_surface_Iy_Iz [OF o1(1) this] Cons.IH [OF o1(2)] show ?thesis by simp
  qed
qed

text \<open>
  Claim C5. Whatever the inputs are (no condition on their values, nor on their
  shapes), whenever \<^verbatim>\<open>compute\<close> returns, the \<^verbatim>\<open>Iy\<close> and \<^verbatim>\<open>Iz\<close> outputs of every
  surface are present and are the same array, hence equal at every index.
\<close>

theorem compute_Iy_eq_Iz:
  assumes "compute lifting_surfaces inputs outputs = Inr outs"
    and "(s, d) \<in> set lifting_surfaces"
  shows "\<exists>b. outs (element_name s ''Iy'') = Some b \<and> outs (element_name s ''Iz'') = Some b"
  using compute_loop_Iy_Iz [of lifting_surfaces inputs outputs outs s d] assms
  by (simp add: compute_def)

theorem compute_Iy_eq_Iz_witness:
  "compute [(''wing'', Map.empty)]
      [''wing_tube_radius'' \<mapsto> [1, - 2], ''wing_tube_thickness'' \<mapsto> [3]] Map.empty =
    Inr [''wing_element_A'' \<mapsto> [pi * (1 - 4), pi * (4 - 25)],
         ''wing_element_Iy'' \<mapsto> [pi * (1 - 16) / 4, pi * (16 - 625) / 4],
         ''wing_element_Iz'' \<mapsto> [pi * (1 - 16) / 4, pi * (16 - 625) / 4],
         ''wing_element_J'' \<mapsto> [pi * (1 - 16) / 2, pi * (16 - 625) / 2]] \<and>
   (\<exists>b. [''wing_element_A'' \<mapsto> [pi * (1 - 4), pi * (4 - 25)],
         ''wing_element_Iy'' \<mapsto> [pi * (1 - 16) / 4, pi * (16 - 625) / 4],
         ''wing_element_Iz'' \<mapsto> [pi * (1 - 16) / 4, pi * (16 - 625) / 4],
         ''wing_element_J'' \<mapsto> [pi * (1 - 16) / 2, pi * (16 - 625) / 2 :: real]]
      (element_name ''wing'' ''Iy'') = Some b \<and>
   [''wing_element_A'' \<mapsto> [pi * (1 - 4), pi * (4 - 25)],
         ''wing_element_Iy'' \<mapsto> [pi * (1 - 16) / 4, pi * (16 - 625) / 4],
         ''wing_element_Iz'' \<mapsto> [pi * (1 - 16) / 4, pi * (16 - 625) / 4],
         ''wing_element_J'' \<mapsto> [pi * (1 - 16) / 2, pi * (16 - 625) / 2]]
      (element_name ''wing'' ''Iz'') = Some b)"
proof -
  have run: "compute [(''wing'', Map.empty)]
      [''wing_tube_radius'' \<mapsto> [1, - 2], ''wing_tube_thickness'' \<mapsto> [3]] Map.empty =
    Inr [''wing_element_A'' \<mapsto> [pi * (1 - 4), pi * (4 - 25)],
         ''wing_element_Iy'' \<mapsto> [pi * (1 - 16) / 4, pi * (16 - 625) / 4],
         ''wing_element_Iz'' \<mapsto> [pi * (1 - 16) / 4, pi * (16 - 625) / 4],
         ''wing_element_J'' \<mapsto> [pi * (1 - 16) / 2, pi * (16 - 625) / 2]]"
    by (simp add: compute_def compute_surface_def getitem_def tube_name_def element_name_def
        np_sub_def np_pow_def np_lmul_def np_div_def)
  have mem: "(''wing'', Map.empty) \<in> set [(''wing'', Map.empty :: string \<rightharpoonup> int)]" by simp
  from run compute_Iy_eq_Iz [OF run mem] show ?thesis by (rule conjI)
qed

section \<open>Input lengths\<close>

lemma compute_surface_mismatch:
  assumes "inputs (tube_name s ''radius'') = Some radius"
    and "inputs (tube_name s ''thickness'') = Some thickness"
    and "length radius \<noteq> length thickness"
    and "length radius \<noteq> 1" and "length thickness \<noteq> 1"
  shows "compute_surface (s, d) inputs outputs = Inl ValueError"
  using assms by (simp add: compute_surface_def getitem_def np_sub_def)

lemma compute_loop_mismatch:
  assumes "(s, d) \<in> set ss"
    and "inputs (tube_name s ''radius'') = Some radius"
    and "inputs (tube_name s ''thickness'') = Some thickness"
    and "length radius \<noteq> length thickness"
    and "length radius \<noteq> 1" and "length thickness \<noteq> 1"
  shows "\<exists>e. compute_loop ss inputs outputs = Inl e"
  using assms(1)
proof (induction ss arbitrary: outputs)
  case Nil
  then show ?case by simp
next
  case (Cons sd ss)
  show ?case
  proof (cases "sd = (s, d)")
    case True
    then show ?thesis
      by (simp add: compute_surface_mismatch [OF assms(2-6)])
  next
    case False
    with Cons.prems have "(s, d) \<in> set ss" by simp
    from Cons.IH [OF this] show ?thesis
      by (cases "compute_surface sd inputs outputs") simp_all
  qed
qed

text \<open>
  Claim C9, as stated, fails: \<^verbatim>\<open>compute\<close> never looks at the shape fixed by
  \<^verbatim>\<open>setup\<close>. With \<^verbatim>\<open>num_points_z_half = 2\<close> the declared length is 2; called on a
  radius and a thickness array of length 1, \<^verbatim>\<open>compute\<close> returns four outputs of
  length 1 and reports nothing.
\<close>

theorem compute_unchecked_length_counterexample:
  "map_sum id inputs_decl (setup_comp [(''wing'', [''num_points_z_half'' \<mapsto> 2])]) =
     Inr [(''wing_tube_radius'', 2), (''wing_tube_thickness'', 2)] \<and>
   compute [(''wing'', [''num_points_z_half'' \<mapsto> 2])]
     [''wing_tube_radius'' \<mapsto> [1], ''wing_tube_thickness'' \<mapsto> [1 / 2]] Map.empty =
     Inr [''wing_element_A'' \<mapsto> [pi * (3 / 4)],
          ''wing_element_Iy'' \<mapsto> [pi * (15 / 16) / 4],
          ''wing_element_Iz'' \<mapsto> [pi * (15 / 16) / 4],
          ''wing_element_J'' \<mapsto> [pi * (15 / 16) / 2]]"
  by (simp add: setup_comp_def setup_surface_def new_component_def add_input_def
      add_output_def declare_partials_def declared_names_def np_arange_def Let_def
      compute_def compute_surface_def getitem_def tube_name_def element_name_def
      np_sub_def np_pow_def np_lmul_def np_div_def power2_eq_square power4_eq_xxxx)

text \<open>
  Claim C9, amended. The only length error \<^verbatim>\<open>compute\<close> reports is the one numpy raises
  when the radius and the thickness array of a surface cannot be subtracted: when their
  lengths differ and neither is 1, \<^verbatim>\<open>compute\<close> ends in an error and returns no
  outputs.
\<close>

theorem compute_length_mismatch_error:
  assumes "(s, d) \<in> set lifting_surfaces"
    and "inputs (tube_name s ''radius'') = Some radius"
    and "inputs (tube_name s ''thickness'') = Some thickness"
    and "length radius \<noteq> length thickness"
    and "length radius \<noteq> 1" and "length thickness \<noteq> 1"
  shows "\<exists>e. compute lifting_surfaces inputs outputs = Inl e"
  using compute_loop_mismatch [OF assms] by (simp add: compute_def)

theorem compute_length_mismatch_error_witness:
  "compute [(''wing'', [''num_points_z_half'' \<mapsto> 2])]
     [''wing_tube_radius'' \<mapsto> [1, 2], ''wing_tube_thickness'' \<mapsto> [1 / 2, 1 / 2, 1 / 2]]
     Map.empty = Inl ValueError"
  using compute_length_mismatch_error
     [where lifting_surfaces = "[(''wing'', [''num_points_z_half'' \<mapsto> 2])]"
      and inputs = "[''wing_tube_radius'' \<mapsto> [1, 2], ''wing_tube_thickness'' \<mapsto> [1 / 2, 1 / 2, 1 / 2]]"
      and s = "''wing''" and d = "[''num_points_z_half'' \<mapsto> 2]"
      and radius = "[1, 2]" and thickness = "[1 / 2, 1 / 2, 1 / 2]" and outputs = Map.empty]
  by (simp add: compute_def compute_surface_def getitem_def tube_name_def np_sub_def)

section \<open>Scaling\<close>







section \<open>Mirroring the thickness about the radius\<close>

lemma compute_surface_cong:
  assumes "inputs1 (tube_name s ''radius'') = inputs2 (tube_name s ''radius'')"
    and "inputs1 (tube_name s ''thickness'') = inputs2 (tube_name s ''thickness'')"
  shows "compute_surface (s, d) inputs1 outputs = compute_surface (s, d) inputs2 outputs"
  using assms by (simp add: compute_surface_def getitem_def)

lemma map2_update_right:
  assumes "length rs = length ts" and "i < length ts" and "f (rs ! i) v = f (rs ! i) (ts ! i)"
  shows "map2 f rs (ts[i := v]) = map2 f rs ts"
  using assms by (auto simp: list_eq_iff_nth_eq nth_list_update)

lemma mirrored_diff_pow:
  fixes r t :: real
  assumes "even n"
  shows "r ^ n - (r - (2 * r - t)) ^ n = r ^ n - (r - t) ^ n"
proof -
  have "r - (2 * r - t) = - (r - t)" by simp
  with assms show ?thesis by (simp only: power_minus_even)
qed

lemma compute_surface_mirror:
  assumes "inputs (tube_name s ''radius'') = Some rs"
    and "inputs (tube_name s ''thickness'') = Some ts"
    and "length rs = length ts" and "i < length rs"
  shows "compute_surface (s', d') (inputs(tube_name s ''thickness'' \<mapsto>
      ts[i := 2 * rs ! i - ts ! i])) outputs = compute_surface (s', d') inputs outputs"
proof (cases "s' = s")
  case True
  have m2: "map2 (\<lambda>r t. pi * (r ^ 2 - (r - t) ^ 2)) rs (ts[i := 2 * rs ! i - ts ! i]) =
      map2 (\<lambda>r t. pi * (r ^ 2 - (r - t) ^ 2)) rs ts"
    using assms(3,4) by (intro map2_update_right) (simp_all only: mirrored_diff_pow even_numeral)
  have m4: "map2 (\<lambda>r t. pi * (r ^ 4 - (r - t) ^ 4) / c) rs (ts[i := 2 * rs ! i - ts ! i]) =
      map2 (\<lambda>r t. pi * (r ^ 4 - (r - t) ^ 4) / c) rs ts" for c
    using assms(3,4) by (intro map2_update_right) (simp_all only: mirrored_diff_pow even_numeral)
  have "compute_surface (s, d') (inputs(tube_name s ''thickness'' \<mapsto>
      ts[i := 2 * rs ! i - ts ! i])) outputs = compute_surface (s, d') inputs outputs"
    using assms
    by (subst compute_surface_same_length [where rs = rs and ts = "ts[i := 2 * rs ! i - ts ! i]"],
        simp, simp, simp,
        subst compute_surface_same_length [where rs = rs and ts = ts],
        simp, simp, simp) (simp only: m2 m4)
  with True show ?thesis by simp
next
  case False
  then show ?thesis by (intro compute_surface_cong) simp_all
qed

lemma compute_loop_mirror:
  assumes "inputs (tube_name s ''radius'') = Some rs"
    and "inputs (tube_name s ''thickness'') = Some ts"
    and "length rs = length ts" and "i < length rs"
  shows "compute_loop ss (inputs(tube_name s ''thickness'' \<mapsto>
      ts[i := 2 * rs ! i - ts ! i])) outputs = compute_loop ss inputs outputs"
proof -
  define inputs' where
    "inputs' = inputs(tube_name s ''thickness'' \<mapsto> ts[i := 2 * rs ! i - ts ! i])"
  have step: "compute_surface sd inputs' outs = compute_surface sd inputs outs" for sd outs
    unfolding inputs'_def using compute_surface_mirror [OF assms] by (cases sd) simp
  have "compute_loop ss inputs' outputs = compute_loop ss inputs outputs"
  proof (induction ss arbitrary: outputs)
    case Nil
    then show ?case by simp
  next
    case (Cons sd ss)
    have "compute_loop ss inputs' = compute_loop ss inputs"
      by (rule ext) (rule Cons.IH)
    then show ?case by (simp only: compute_loop.simps step)
  qed
  then show ?thesis by (simp only: inputs'_def)
qed

lemma neg_cube: "(- x) ^ 3 = - (x ^ 3)" for x :: real
  by simp

lemma same_shape_update:
  assumes "same_shape inputs s'" and "inputs k = Some xs" and "length ys = length xs"
  shows "same_shape (inputs(k \<mapsto> ys)) s'"
  using assms by (auto simp: same_shape_def split: option.splits)

text \<open>
  Claim C10. Replacing \<open>thickness[i]\<close> by \<open>2 * radius[i] - thickness[i]\<close> leaves the
  result of \<^verbatim>\<open>compute\<close> unchanged (all four outputs of all surfaces, at every
  index), while entry \<open>i\<close> of each of the four partials with respect to thickness changes
  its sign, and so differs whenever \<open>radius[i] \<noteq> thickness[i]\<close>.
\<close>

theorem thickness_mirror:
  assumes "\<forall>(s, d) \<in> set lifting_surfaces. same_shape inputs s"
    and "(s, d) \<in> set lifting_surfaces"
    and "inputs (tube_name s ''radius'') = Some radius"
    and "inputs (tube_name s ''thickness'') = Some thickness"
    and "i < length radius"
  shows "let inputs' = inputs(tube_name s ''thickness'' \<mapsto>
             thickness[i := 2 * radius ! i - thickness ! i]) in
    (\<exists>outs. compute lifting_surfaces inputs outputs = Inr outs \<and>
       compute lifting_surfaces inputs' outputs = Inr outs) \<and>
    (\<exists>p p'. compute_partials lifting_surfaces inputs partials = Inr p \<and>
       compute_partials lifting_surfaces inputs' partials = Inr p' \<and>
       (\<forall>y \<in> {''A'', ''Iy'', ''Iz'', ''J''}. \<exists>D D'.
          p (element_name s y, tube_name s ''thickness'') = Some D \<and>
          p' (element_name s y, tube_name s ''thickness'') = Some D' \<and>
          i < length D \<and> i < length D' \<and> D' ! i = - (D ! i) \<and>
          (radius ! i \<noteq> thickness ! i \<longrightarrow> D' ! i \<noteq> D ! i)))"
proof -
  define t' where "t' = thickness[i := 2 * radius ! i - thickness ! i]"
  define inputs' where "inputs' = inputs(tube_name s ''thickness'' \<mapsto> t')"
  from assms(1,2) have "same_shape inputs s" by auto
  with assms(3,4) have len: "length radius = length thickness"
    by (simp add: same_shape_def)
  have "same_shape inputs' s'" if "same_shape inputs s'" for s'
    unfolding inputs'_def using that assms(4)
    by (rule same_shape_update [where xs = thickness]) (simp add: t'_def)
  with assms(1) have shapes': "\<forall>(s, d) \<in> set lifting_surfaces. same_shape inputs' s"
    by auto
  have in': "inputs' (tube_name s ''radius'') = Some radius"
    "inputs' (tube_name s ''thickness'') = Some t'"
    by (simp_all add: inputs'_def assms(3))
  from compute_at_index [OF assms, of outputs] obtain outs
    where outs: "compute lifting_surfaces inputs outputs = Inr outs" by blast
  have same: "compute lifting_surfaces inputs' outputs = compute lifting_surfaces inputs outputs"
    unfolding inputs'_def t'_def compute_def
    by (rule compute_loop_mirror [OF assms(3,4) len assms(5)])
  from compute_partials_at_index [OF assms, of partials] obtain p a b c e where
    p: "compute_partials lifting_surfaces inputs partials = Inr p"
      "p (element_name s ''A'', tube_name s ''thickness'') = Some a"
      "p (element_name s ''Iy'', tube_name s ''thickness'') = Some b"
      "p (element_name s ''Iz'', tube_name s ''thickness'') = Some c"
      "p (element_name s ''J'', tube_name s ''thickness'') = Some e"
      "length a = length radius" "length b = length radius"
      "length c = length radius" "length e = length radius"
      "a ! i = 2 * pi * (radius ! i - thickness ! i)"
      "b ! i = pi * (radius ! i - thickness ! i) ^ 3"
      "c ! i = pi * (radius ! i - thickness ! i) ^ 3"
      "e ! i = 2 * pi * (radius ! i - thickness ! i) ^ 3"
    by (auto simp: Let_def)
  have r1': "radius ! i - t' ! i = - (radius ! i - thickness ! i)"
    using assms(5) len by (simp add: t'_def)
  from compute_partials_at_index [OF shapes' assms(2) in' assms(5), of partials]
  obtain p' a' b' c' e' where
    p': "compute_partials lifting_surfaces inputs' partials = Inr p'"
      "p' (element_name s ''A'', tube_name s ''thickness'') = Some a'"
      "p' (element_name s ''Iy'', tube_name s ''thickness'') = Some b'"
      "p' (element_name s ''Iz'', tube_name s ''thickness'') = Some c'"
      "p' (element_name s ''J'', tube_name s ''thickness'') = Some e'"
      "length a' = length radius" "length b' = length radius"
      "length c' = length radius" "length e' = length radius"
      "a' ! i = 2 * pi * (radius ! i - t' ! i)"
      "b' ! i = pi * (radius ! i - t' ! i) ^ 3"
      "c' ! i = pi * (radius ! i - t' ! i) ^ 3"
      "e' ! i = 2 * pi * (radius ! i - t' ! i) ^ 3"
    by (auto simp: Let_def)
  have neg: "a' ! i = - (a ! i)" "b' ! i = - (b ! i)" "c' ! i = - (c ! i)" "e' ! i = - (e ! i)"
    by (simp_all only: p(10-13) p'(10-13) r1' neg_cube mult_minus_right)
  have ne: "radius ! i \<noteq> thickness ! i \<Longrightarrow>
      a' ! i \<noteq> a ! i \<and> b' ! i \<noteq> b ! i \<and> c' ! i \<noteq> c ! i \<and> e' ! i \<noteq> e ! i"
    unfolding neg by (simp add: p)
  have "(\<exists>outs. compute lifting_surfaces inputs outputs = Inr outs \<and>
       compute lifting_surfaces inputs' outputs = Inr outs) \<and>
    (\<exists>p p'. compute_partials lifting_surfaces inputs partials = Inr p \<and>
       compute_partials lifting_surfaces inputs' partials = Inr p' \<and>
       (\<forall>y \<in> {''A'', ''Iy'', ''Iz'', ''J''}. \<exists>D D'.
          p (element_name s y, tube_name s ''thickness'') = Some D \<and>
          p' (element_name s y, tube_name s ''thickness'') = Some D' \<and>
          i < length D \<and> i < length D' \<and> D' ! i = - (D ! i) \<and>
          (radius ! i \<noteq> thickness ! i \<longrightarrow> D' ! i \<noteq> D ! i)))"
    using outs same p(1-9) p'(1-9) neg ne assms(5) by simp
  then show ?thesis
    by (simp add: Let_def inputs'_def t'_def)
qed

theorem thickness_mirror_witness:
  "\<exists>outs p p'.
    compute [(''wing'', [''num_points_z_half'' \<mapsto> 2])]
      [''wing_tube_radius'' \<mapsto> [1, 2], ''wing_tube_thickness'' \<mapsto> [1 / 10, 1 / 2]]
      Map.empty = Inr outs \<and>
    compute [(''wing'', [''num_points_z_half'' \<mapsto> 2])]
      [''wing_tube_radius'' \<mapsto> [1, 2], ''wing_tube_thickness'' \<mapsto> [19 / 10, 1 / 2]]
      Map.empty = Inr outs \<and>
    compute_partials [(''wing'', [''num_points_z_half'' \<mapsto> 2])]
      [''wing_tube_radius'' \<mapsto> [1, 2], ''wing_tube_thickness'' \<mapsto> [1 / 10, 1 / 2]]
      Map.empty = Inr p \<and>
    compute_partials [(''wing'', [''num_points_z_half'' \<mapsto> 2])]
      [''wing_tube_radius'' \<mapsto> [1, 2], ''wing_tube_thickness'' \<mapsto> [19 / 10, 1 / 2]]
      Map.empty = Inr p' \<and>
    (\<exists>D D'. p (''wing_element_A'', ''wing_tube_thickness'') = Some D \<and>
       p' (''wing_element_A'', ''wing_tube_thickness'') = Some D' \<and>
       D' ! 0 = - (D ! 0) \<and> D' ! 0 \<noteq> D ! 0) \<and>
    (\<exists>D D'. p (''wing_element_Iy'', ''wing_tube_thickness'') = Some D \<and>
       p' (''wing_element_Iy'', ''wing_tube_thickness'') = Some D' \<and>
       D' ! 0 = - (D ! 0) \<and> D' ! 0 \<noteq> D ! 0) \<and>
    (\<exists>D D'. p (''wing_element_Iz'', ''wing_tube_thickness'') = Some D \<and>
       p' (''wing_element_Iz'', ''wing_tube_thickness'') = Some D' \<and>
       D' ! 0 = - (D ! 0) \<and> D' ! 0 \<noteq> D ! 0) \<and>
    (\<exists>D D'. p (''wing_element_J'', ''wing_tube_thickness'') = Some D \<and>
       p' (''wing_element_J'', ''wing_tube_thickness'') = Some D' \<and>
       D' ! 0 = - (D ! 0) \<and> D' ! 0 \<noteq> D ! 0)"
  using thickness_mirror
     [where lifting_surfaces = "[(''wing'', [''num_points_z_half'' \<mapsto> 2])]"
      and inputs = "[''wing_tube_radius'' \<mapsto> [1, 2], ''wing_tube_thickness'' \<mapsto> [1 / 10, 1 / 2]]"
      and s = "''wing''" and d = "[''num_points_z_half'' \<mapsto> 2]"
      and radius = "[1, 2]" and thickness = "[1 / 10, 1 / 2]" and i = 0
      and outputs = Map.empty and partials = Map.empty]
  by (simp add: same_shape_def tube_name_def element_name_def Let_def) blast

section \<open>The partials as derivatives\<close>

lemma deriv_wrt_radius:
  fixes r t c :: real
  shows "((\<lambda>x. pi * (x ^ 2 - (x - t) ^ 2)) has_real_derivative 2 * pi * (r - (r - t))) (at r)"
    and "((\<lambda>x. pi * (x ^ 4 - (x - t) ^ 4) / 4) has_real_derivative
          pi * (r ^ 3 - (r - t) ^ 3)) (at r)"
    and "((\<lambda>x. pi * (x ^ 4 - (x - t) ^ 4) / 2) has_real_derivative
          2 * pi * (r ^ 3 - (r - t) ^ 3)) (at r)"
  by (auto intro!: derivative_eq_intros simp: field_simps)

lemma deriv_wrt_thickness:
  fixes r t :: real
  shows "((\<lambda>x. pi * (r ^ 2 - (r - x) ^ 2)) has_real_derivative 2 * pi * (r - t)) (at t)"
    and "((\<lambda>x. pi * (r ^ 4 - (r - x) ^ 4) / 4) has_real_derivative pi * (r - t) ^ 3) (at t)"
    and "((\<lambda>x. pi * (r ^ 4 - (r - x) ^ 4) / 2) has_real_derivative
          2 * pi * (r - t) ^ 3) (at t)"
  by (auto intro!: derivative_eq_intros simp: field_simps)

lemma compute_perturbed_radius:
  assumes "\<forall>(s, d) \<in> set lifting_surfaces. same_shape inputs s"
    and "(s, d) \<in> set lifting_surfaces"
    and "inputs (tube_name s ''radius'') = Some radius"
    and "inputs (tube_name s ''thickness'') = Some thickness"
    and "i < length radius"
  shows "\<exists>outs ys. compute lifting_surfaces
        (inputs(tube_name s ''radius'' \<mapsto> radius[i := x])) outputs = Inr outs \<and>
      outs (element_name s ''A'') = Some ys \<and> i < length ys \<and> ys ! i = pi * (x ^ 2 - (x - thickness ! i) ^ 2)"
    and "\<exists>outs ys. compute lifting_surfaces
        (inputs(tube_name s ''radius'' \<mapsto> radius[i := x])) outputs = Inr outs \<and>
      outs (element_name s ''Iy'') = Some ys \<and> i < length ys \<and> ys ! i = pi * (x ^ 4 - (x - thickness ! i) ^ 4) / 4"
    and "\<exists>outs ys. compute lifting_surfaces
        (inputs(tube_name s ''radius'' \<mapsto> radius[i := x])) outputs = Inr outs \<and>
      outs (element_name s ''Iz'') = Some ys \<and> i < length ys \<and> ys ! i = pi * (x ^ 4 - (x - thickness ! i) ^ 4) / 4"
    and "\<exists>outs ys. compute lifting_surfaces
        (inputs(tube_name s ''radius'' \<mapsto> radius[i := x])) outputs = Inr outs \<and>
      outs (element_name s ''J'') = Some ys \<and> i < length ys \<and> ys ! i = pi * (x ^ 4 - (x - thickness ! i) ^ 4) / 2"
proof -
  let ?inputs' = "inputs(tube_name s ''radius'' \<mapsto> radius[i := x])"
  from assms(1,2) have "same_shape inputs s" by auto
  with assms(3,4) have len: "length radius = length thickness"
    by (simp add: same_shape_def)
  have "same_shape ?inputs' s'" if "same_shape inputs s'" for s'
    using that assms(3)
    by (rule same_shape_update [where xs = radius]) simp
  with assms(1) have shapes': "\<forall>(s, d) \<in> set lifting_surfaces. same_shape ?inputs' s"
    by auto
  have in': "?inputs' (tube_name s ''radius'') = Some (radius[i := x])"
    "?inputs' (tube_name s ''thickness'') = Some thickness"
    by (simp_all add: assms(3,4))
  have i': "i < length (radius[i := x])" "i < length radius" using assms(5) by simp_all
  from compute_at_index [where inputs = ?inputs' and outputs = outputs,
      OF shapes' assms(2) in' i'(1)] assms(5) len
  obtain outs A Iy Iz J where res:
      "compute lifting_surfaces ?inputs' outputs = Inr outs"
      "outs (element_name s ''A'') = Some A" "outs (element_name s ''Iy'') = Some Iy"
      "outs (element_name s ''Iz'') = Some Iz" "outs (element_name s ''J'') = Some J"
      "i < length A" "i < length Iy" "i < length Iz" "i < length J"
      "A ! i = pi * (x ^ 2 - (x - thickness ! i) ^ 2)"
      "Iy ! i = pi * (x ^ 4 - (x - thickness ! i) ^ 4) / 4"
      "Iz ! i = pi * (x ^ 4 - (x - thickness ! i) ^ 4) / 4"
      "J ! i = pi * (x ^ 4 - (x - thickness ! i) ^ 4) / 2"
    by (auto simp: Let_def)
  show "\<exists>outs ys. compute lifting_surfaces
      (inputs(tube_name s ''radius'' \<mapsto> radius[i := x])) outputs = Inr outs \<and>
    outs (element_name s ''A'') = Some ys \<and> i < length ys \<and> ys ! i = pi * (x ^ 2 - (x - thickness ! i) ^ 2)"
    using res by (intro exI [of _ outs] exI [of _ A] conjI) simp_all
  show "\<exists>outs ys. compute lifting_surfaces
      (inputs(tube_name s ''radius'' \<mapsto> radius[i := x])) outputs = Inr outs \<and>
    outs (element_name s ''Iy'') = Some ys \<and> i < length ys \<and> ys ! i = pi * (x ^ 4 - (x - thickness ! i) ^ 4) / 4"
    using res by (intro exI [of _ outs] exI [of _ Iy] conjI) simp_all
  show "\<exists>outs ys. compute lifting_surfaces
      (inputs(tube_name s ''radius'' \<mapsto> radius[i := x])) outputs = Inr outs \<and>
    outs (element_name s ''Iz'') = Some ys \<and> i < length ys \<and> ys ! i = pi * (x ^ 4 - (x - thickness ! i) ^ 4) / 4"
    using res by (intro exI [of _ outs] exI [of _ Iz] conjI) simp_all
  show "\<exists>outs ys. compute lifting_surfaces
      (inputs(tube_name s ''radius'' \<mapsto> radius[i := x])) outputs = Inr outs \<and>
    outs (element_name s ''J'') = Some ys \<and> i < length ys \<and> ys ! i = pi * (x ^ 4 - (x - thickness ! i) ^ 4) / 2"
    using res by (intro exI [of _ outs] exI [of _ J] conjI) simp_all
qed

lemma compute_perturbed_thickness:
  assumes "\<forall>(s, d) \<in> set lifting_surfaces. same_shape inputs s"
    and "(s, d) \<in> set lifting_surfaces"
    and "inputs (tube_name s ''radius'') = Some radius"
    and "inputs (tube_name s ''thickness'') = Some thickness"
    and "i < length radius"
  shows "\<exists>outs ys. compute lifting_surfaces
        (inputs(tube_name s ''thickness'' \<mapsto> thickness[i := x])) outputs = Inr outs \<and>
      outs (element_name s ''A'') = Some ys \<and> i < length ys \<and> ys ! i = pi * ((radius ! i) ^ 2 - (radius ! i - x) ^ 2)"
    and "\<exists>outs ys. compute lifting_surfaces
        (inputs(tube_name s ''thickness'' \<mapsto> thickness[i := x])) outputs = Inr outs \<and>
      outs (element_name s ''Iy'') = Some ys \<and> i < length ys \<and> ys ! i = pi * ((radius ! i) ^ 4 - (radius ! i - x) ^ 4) / 4"
    and "\<exists>outs ys. compute lifting_surfaces
        (inputs(tube_name s ''thickness'' \<mapsto> thickness[i := x])) outputs = Inr outs \<and>
      outs (element_name s ''Iz'') = Some ys \<and> i < length ys \<and> ys ! i = pi * ((radius ! i) ^ 4 - (radius ! i - x) ^ 4) / 4"
    and "\<exists>outs ys. compute lifting_surfaces
        (inputs(tube_name s ''thickness'' \<mapsto> thickness[i := x])) outputs = Inr outs \<and>
      outs (element_name s ''J'') = Some ys \<and> i < length ys \<and> ys ! i = pi * ((radius ! i) ^ 4 - (radius ! i - x) ^ 4) / 2"
proof -
  let ?inputs' = "inputs(tube_name s ''thickness'' \<mapsto> thickness[i := x])"
  from assms(1,2) have "same_shape inputs s" by auto
  with assms(3,4) have len: "length radius = length thickness"
    by (simp add: same_shape_def)
  have "same_shape ?inputs' s'" if "same_shape inputs s'" for s'
    using that assms(4)
    by (rule same_shape_update [where xs = thickness]) simp
  with assms(1) have shapes': "\<forall>(s, d) \<in> set lifting_surfaces. same_shape ?inputs' s"
    by auto
  have in': "?inputs' (tube_name s ''radius'') = Some radius"
    "?inputs' (tube_name s ''thickness'') = Some (thickness[i := x])"
    by (simp_all add: assms(3,4))
  have i': "i < length (radius[i := x])" "i < length radius" using assms(5) by simp_all
  from compute_at_index [where inputs = ?inputs' and outputs = outputs,
      OF shapes' assms(2) in' i'(2)] assms(5) len
  obtain outs A Iy Iz J where res:
      "compute lifting_surfaces ?inputs' outputs = Inr outs"
      "outs (element_name s ''A'') = Some A" "outs (element_name s ''Iy'') = Some Iy"
      "outs (element_name s ''Iz'') = Some Iz" "outs (element_name s ''J'') = Some J"
      "i < length A" "i < length Iy" "i < length Iz" "i < length J"
      "A ! i = pi * ((radius ! i) ^ 2 - (radius ! i - x) ^ 2)"
      "Iy ! i = pi * ((radius ! i) ^ 4 - (radius ! i - x) ^ 4) / 4"
      "Iz ! i = pi * ((radius ! i) ^ 4 - (radius ! i - x) ^ 4) / 4"
      "J ! i = pi * ((radius ! i) ^ 4 - (radius ! i - x) ^ 4) / 2"
    by (auto simp: Let_def)
  show "\<exists>outs ys. compute lifting_surfaces
      (inputs(tube_name s ''thickness'' \<mapsto> thickness[i := x])) outputs = Inr outs \<and>
    outs (element_name s ''A'') = Some ys \<and> i < length ys \<and> ys ! i = pi * ((radius ! i) ^ 2 - (radius ! i - x) ^ 2)"
    using res by (intro exI [of _ outs] exI [of _ A] conjI) simp_all
  show "\<exists>outs ys. compute lifting_surfaces
      (inputs(tube_name s ''thickness'' \<mapsto> thickness[i := x])) outputs = Inr outs \<and>
    outs (element_name s ''Iy'') = Some ys \<and> i < length ys \<and> ys ! i = pi * ((radius ! i) ^ 4 - (radius ! i - x) ^ 4) / 4"
    using res by (intro exI [of _ outs] exI [of _ Iy] conjI) simp_all
  show "\<exists>outs ys. compute lifting_surfaces
      (inputs(tube_name s ''thickness'' \<mapsto> thickness[i := x])) outputs = Inr outs \<and>
    outs (element_name s ''Iz'') = Some ys \<and> i < length ys \<and> ys ! i = pi * ((radius ! i) ^ 4 - (radius ! i - x) ^ 4) / 4"
    using res by (intro exI [of _ outs] exI [of _ Iz] conjI) simp_all
  show "\<exists>outs ys. compute lifting_surfaces
      (inputs(tube_name s ''thickness'' \<mapsto> thickness[i := x])) outputs = Inr outs \<and>
    outs (element_name s ''J'') = Some ys \<and> i < length ys \<and> ys ! i = pi * ((radius ! i) ^ 4 - (radius ! i - x) ^ 4) / 2"
    using res by (intro exI [of _ outs] exI [of _ J] conjI) simp_all
qed

lemma exact_partialI:
  assumes "\<And>x. \<exists>outs ys. compute ss (inputs(k \<mapsto> xs[i := x])) outputs = Inr outs \<and>
      outs ko = Some ys \<and> i < length ys \<and> ys ! i = f x"
    and "compute_partials ss inputs partials = Inr p"
    and "p (ko, k) = Some D" and "i < length D"
    and "(f has_real_derivative D ! i) (at (xs ! i))"
  shows "\<exists>f p D.
    (\<forall>x. \<exists>outs ys. compute ss (inputs(k \<mapsto> xs[i := x])) outputs = Inr outs \<and>
       outs ko = Some ys \<and> i < length ys \<and> ys ! i = f x) \<and>
    compute_partials ss inputs partials = Inr p \<and> p (ko, k) = Some D \<and> i < length D \<and>
    (f has_real_derivative D ! i) (at (xs ! i))"
  using assms by (intro exI [of _ f] exI [of _ p] exI [of _ D] conjI allI)

text \<open>
  Claim C3. For every surface, every index \<open>i\<close> and every (output, input) pair: let
  \<open>f x\<close> be entry \<open>i\<close> of that output of \<^verbatim>\<open>compute\<close> when entry \<open>i\<close> of that input is
  set to \<open>x\<close> and everything else is kept. Then entry \<open>i\<close> of the pair's partial,
  as \<^verbatim>\<open>compute_partials\<close> fills it, is the derivative of \<open>f\<close> at the current value
  of the input: the analytic Jacobian is the true derivative of the formulas of
  \<^verbatim>\<open>compute\<close>.
\<close>

theorem partials_exact_derivative:
  assumes "\<forall>(s, d) \<in> set lifting_surfaces. same_shape inputs s"
    and "(s, d) \<in> set lifting_surfaces"
    and "out \<in> {''A'', ''Iy'', ''Iz'', ''J''}"
    and "inp \<in> {''radius'', ''thickness''}"
    and "inputs (tube_name s inp) = Some xs"
    and "i < length xs"
  shows "\<exists>f p D.
    (\<forall>x. \<exists>outs ys.
       compute lifting_surfaces (inputs(tube_name s inp \<mapsto> xs[i := x])) outputs = Inr outs \<and>
       outs (element_name s out) = Some ys \<and> i < length ys \<and> ys ! i = f x) \<and>
    compute_partials lifting_surfaces inputs partials = Inr p \<and>
    p (element_name s out, tube_name s inp) = Some D \<and> i < length D \<and>
    (f has_real_derivative D ! i) (at (xs ! i))"
proof -
  from assms(1,2) have "same_shape inputs s" by auto
  then obtain radius thickness where
    rt: "inputs (tube_name s ''radius'') = Some radius"
      "inputs (tube_name s ''thickness'') = Some thickness"
    and len: "length radius = length thickness"
    using same_shapeD by blast
  from assms(4-6) rt len have i: "i < length radius" by auto
  note pr = compute_perturbed_radius [where inputs = inputs and outputs = outputs,
      OF assms(1,2) rt i]
  note pt = compute_perturbed_thickness [where inputs = inputs and outputs = outputs,
      OF assms(1,2) rt i]
  from compute_partials_at_index [where inputs = inputs and partials = partials,
      OF assms(1,2) rt i]
  obtain p dA_dr dA_dt dIy_dr dIy_dt dIz_dr dIz_dt dJ_dr dJ_dt where
    p: "compute_partials lifting_surfaces inputs partials = Inr p"
    and key: "p (element_name s ''A'', tube_name s ''radius'') = Some dA_dr"
      "p (element_name s ''A'', tube_name s ''thickness'') = Some dA_dt"
      "p (element_name s ''Iy'', tube_name s ''radius'') = Some dIy_dr"
      "p (element_name s ''Iy'', tube_name s ''thickness'') = Some dIy_dt"
      "p (element_name s ''Iz'', tube_name s ''radius'') = Some dIz_dr"
      "p (element_name s ''Iz'', tube_name s ''thickness'') = Some dIz_dt"
      "p (element_name s ''J'', tube_name s ''radius'') = Some dJ_dr"
      "p (element_name s ''J'', tube_name s ''thickness'') = Some dJ_dt"
    and lens: "i < length dA_dr" "i < length dA_dt" "i < length dIy_dr" "i < length dIy_dt"
      "i < length dIz_dr" "i < length dIz_dt" "i < length dJ_dr" "i < length dJ_dt"
    and val: "dA_dr ! i = 2 * pi * (radius ! i - (radius ! i - thickness ! i))"
      "dA_dt ! i = 2 * pi * (radius ! i - thickness ! i)"
      "dIy_dr ! i = pi * ((radius ! i) ^ 3 - (radius ! i - thickness ! i) ^ 3)"
      "dIy_dt ! i = pi * (radius ! i - thickness ! i) ^ 3"
      "dIz_dr ! i = pi * ((radius ! i) ^ 3 - (radius ! i - thickness ! i) ^ 3)"
      "dIz_dt ! i = pi * (radius ! i - thickness ! i) ^ 3"
      "dJ_dr ! i = 2 * pi * ((radius ! i) ^ 3 - (radius ! i - thickness ! i) ^ 3)"
      "dJ_dt ! i = 2 * pi * (radius ! i - thickness ! i) ^ 3"
    using i by (auto simp: Let_def)
  from assms(3) have outs: "out = ''A'' \<or> out = ''Iy'' \<or> out = ''Iz'' \<or> out = ''J''"
    by simp
  from assms(4) have "inp = ''radius'' \<or> inp = ''thickness''" by simp
  then show ?thesis
  proof
    assume inp: "inp = ''radius''"
    with assms(5) rt have xs: "xs = radius" by simp
    from outs consider "out = ''A''" | "out = ''Iy''" | "out = ''Iz''" | "out = ''J''"
      by blast
    then show ?thesis
    proof cases
      case 1
      show ?thesis unfolding inp xs 1
        by (rule exact_partialI [where f = "\<lambda>x. pi * (x ^ 2 - (x - thickness ! i) ^ 2)"
              and p = p and D = dA_dr])
          (rule pr(1), rule p, rule key(1), rule lens(1), simp only: val(1) deriv_wrt_radius(1))
    next
      case 2
      show ?thesis unfolding inp xs 2
        by (rule exact_partialI [where f = "\<lambda>x. pi * (x ^ 4 - (x - thickness ! i) ^ 4) / 4"
              and p = p and D = dIy_dr])
          (rule pr(2), rule p, rule key(3), rule lens(3), simp only: val(3) deriv_wrt_radius(2))
    next
      case 3
      show ?thesis unfolding inp xs 3
        by (rule exact_partialI [where f = "\<lambda>x. pi * (x ^ 4 - (x - thickness ! i) ^ 4) / 4"
              and p = p and D = dIz_dr])
          (rule pr(3), rule p, rule key(5), rule lens(5), simp only: val(5) deriv_wrt_radius(2))
    next
      case 4
      show ?thesis unfolding inp xs 4
        by (rule exact_partialI [where f = "\<lambda>x. pi * (x ^ 4 - (x - thickness ! i) ^ 4) / 2"
              and p = p and D = dJ_dr])
          (rule pr(4), rule p, rule key(7), rule lens(7), simp only: val(7) deriv_wrt_radius(3))
    qed
  next
    assume inp: "inp = ''thickness''"
    with assms(5) rt have xs: "xs = thickness" by simp
    from outs consider "out = ''A''" | "out = ''Iy''" | "out = ''Iz''" | "out = ''J''"
      by blast
    then show ?thesis
    proof cases
      case 1
      show ?thesis unfolding inp xs 1
        by (rule exact_partialI [where f = "\<lambda>x. pi * ((radius ! i) ^ 2 - (radius ! i - x) ^ 2)"
              and p = p and D = dA_dt])
          (rule pt(1), rule p, rule key(2), rule lens(2), simp only: val(2) deriv_wrt_thickness(1))
    next
      case 2
      show ?thesis unfolding inp xs 2
        by (rule exact_partialI
              [where f = "\<lambda>x. pi * ((radius ! i) ^ 4 - (radius ! i - x) ^ 4) / 4"
              and p = p and D = dIy_dt])
          (rule pt(2), rule p, rule key(4), rule lens(4), simp only: val(4) deriv_wrt_thickness(2))
    next
      case 3
      show ?thesis unfolding inp xs 3
        by (rule exact_partialI
              [where f = "\<lambda>x. pi * ((radius ! i) ^ 4 - (radius ! i - x) ^ 4) / 4"
              and p = p and D = dIz_dt])
          (rule pt(3), rule p, rule key(6), rule lens(6), simp only: val(6) deriv_wrt_thickness(2))
    next
      case 4
      show ?thesis unfolding inp xs 4
        by (rule exact_partialI
              [where f = "\<lambda>x. pi * ((radius ! i) ^ 4 - (radius ! i - x) ^ 4) / 2"
              and p = p and D = dJ_dt])
          (rule pt(4), rule p, rule key(8), rule lens(8), simp only: val(8) deriv_wrt_thickness(3))
    qed
  qed
qed

theorem partials_exact_derivative_witness:
  "\<exists>f p D.
    (\<forall>x. \<exists>outs ys.
       compute [(''wing'', [''num_points_z_half'' \<mapsto> 2])]
         ([''wing_tube_radius'' \<mapsto> [1, 2], ''wing_tube_thickness'' \<mapsto> [1 / 10, 1 / 2]]
            (tube_name ''wing'' ''radius'' \<mapsto> [1, 2][0 := x])) Map.empty = Inr outs \<and>
       outs (element_name ''wing'' ''A'') = Some ys \<and> 0 < length ys \<and> ys ! 0 = f x) \<and>
    compute_partials [(''wing'', [''num_points_z_half'' \<mapsto> 2])]
      [''wing_tube_radius'' \<mapsto> [1, 2], ''wing_tube_thickness'' \<mapsto> [1 / 10, 1 / 2]]
      Map.empty = Inr p \<and>
    p (element_name ''wing'' ''A'', tube_name ''wing'' ''radius'') = Some D \<and>
    0 < length D \<and> (f has_real_derivative D ! 0) (at ([1, 2] ! 0))"
proof -
  have shapes: "\<forall>(s, d) \<in> set [(''wing'', [''num_points_z_half'' \<mapsto> (2::int)])].
      same_shape [''wing_tube_radius'' \<mapsto> [1, 2], ''wing_tube_thickness'' \<mapsto> [1 / 10, 1 / 2]] s"
    by (simp add: same_shape_def tube_name_def)
  have mem: "(''wing'', [''num_points_z_half'' \<mapsto> 2]) \<in>
      set [(''wing'', [''num_points_z_half'' \<mapsto> (2::int)])]"
    by simp
  have out: "''A'' \<in> {''A'', ''Iy'', ''Iz'', ''J''}" by simp
  have inp: "''radius'' \<in> {''radius'', ''thickness''}" by simp
  have xs: "[''wing_tube_radius'' \<mapsto> [1, 2], ''wing_tube_thickness'' \<mapsto> [1 / 10, 1 / 2]]
      (tube_name ''wing'' ''radius'') = Some [1, 2 :: real]"
    by (simp add: tube_name_def)
  have i: "0 < length [1, 2 :: real]" by simp
  show ?thesis
    by (rule partials_exact_derivative [OF shapes mem out inp xs i])
qed

section \<open>Sign of the outputs\<close>
















end
